theory Spec2Isabelle
  imports Main
begin

section \<open>Element type, memory and allocator\<close>

text \<open>
  \<^verbatim>\<open>Lsh::vector<T>\<close> keeps three raw pointers into storage obtained from
  \<^verbatim>\<open>std::allocator<T>\<close> and builds its elements with the uninitialised-memory
  algorithms of the standard library. The embedding makes all of that explicit:
  \<^item> a pointer is an address counted in elements (\<open>nat\<close>), \<open>0\<close> is \<^verbatim>\<open>nullptr\<close>;
    pointer difference is subtraction on \<open>nat\<close>, exact whenever the pointers are ordered
    as the container's invariant orders them;
  \<^item> memory is a map from addresses to constructed objects: \<open>None\<close> is raw storage;
  \<^item> the template parameter \<^verbatim>\<open>T\<close> is a record of what the container uses of it;
  \<^item> vector objects live in a store indexed by their address, so that
    \<^verbatim>\<open>std::addressof(other) != this\<close> is a comparison of two store indices;
  \<^item> every call of the allocator is appended to a trace, and a call outside the
    allocator's contract is undefined behaviour, an error like any other;
  \<^item> an exception is the \<open>Inl\<close> result of a step; the store it leaves behind is
    returned with it, since the objects survive the unwinding;
  \<^item> \<open>fuse\<close> injects one fault: \<open>Some k\<close> lets \<open>k\<close> fallible steps (an allocation,
    an element construction or assignment) succeed and makes the next one throw;
    \<open>None\<close> is the fault-free run.
\<close>

datatype error = Length_error | Bad_alloc | Elem_throw | Undefined_behaviour

datatype event = Allocate nat nat | Deallocate nat nat

record 'a elem_type =
  sizeof :: nat
  trivially_default_constructible :: bool
  trivially_destructible :: bool
  default_value :: 'a
  moved_from :: "'a \<Rightarrow> 'a"
  eq :: "'a \<Rightarrow> 'a \<Rightarrow> bool"

record vec =
  start :: nat
  finish :: nat
  end_of_storage :: nat

record 'a world =
  objs :: "nat \<Rightarrow> vec"
  cells :: "nat \<Rightarrow> 'a option"
  brk :: nat
  trace :: "event list"
  fuse :: "nat option"

type_synonym ('a, 'r) prog = "'a world \<Rightarrow> (error + 'r) \<times> 'a world"

text \<open>Sequencing: the second step runs only when the first one returned normally.\<close>

definition andthen :: "('a, 'r) prog \<Rightarrow> ('r \<Rightarrow> ('a, 's) prog) \<Rightarrow> ('a, 's) prog" where
  "andthen m f w = (case m w of (Inl e, w1) \<Rightarrow> (Inl e, w1) | (Inr x, w1) \<Rightarrow> f x w1)"

definition ret :: "'r \<Rightarrow> ('a, 'r) prog" where
  "ret x w = (Inr x, w)"

definition effect :: "('a world \<Rightarrow> 'a world) \<Rightarrow> ('a, unit) prog" where
  "effect f w = (Inr (), f w)"

definition throw :: "error \<Rightarrow> ('a, 'r) prog" where
  "throw e w = (Inl e, w)"

text \<open>A fallible step consumes the fuse; \<open>e\<close> is what it throws when the fuse is spent.\<close>

definition tick :: "error \<Rightarrow> ('a, unit) prog" where
  "tick e w =
     (case fuse w of
        None \<Rightarrow> (Inr (), w)
      | Some 0 \<Rightarrow> (Inl e, w\<lparr>fuse := None\<rparr>)
      | Some (Suc k) \<Rightarrow> (Inr (), w\<lparr>fuse := Some k\<rparr>))"

text \<open>Reading through a pointer to storage that holds no object is undefined.\<close>

definition read :: "nat \<Rightarrow> ('a, 'a) prog" where
  "read p w = (case cells w p of None \<Rightarrow> (Inl Undefined_behaviour, w) | Some x \<Rightarrow> (Inr x, w))"

definition store :: "nat \<Rightarrow> 'a \<Rightarrow> 'a world \<Rightarrow> 'a world" where
  "store p x w = w\<lparr>cells := (cells w)(p \<mapsto> x)\<rparr>"

text \<open>
  The forwarded constructor arguments \<^verbatim>\<open>Args&&... args\<close>: a \<^verbatim>\<open>const T&\<close> to the object
  at an address, a \<^verbatim>\<open>T&&\<close> to the object at an address, other arguments, given by
  the object they construct, or none at all, which is default-initialisation.
\<close>

datatype 'a arg = Copy_of nat | Move_of nat | Emplace 'a | Default_init

text \<open>
  \<^verbatim>\<open>Tr::construct(alloc_, p, args...)\<close>: placement construction at \<open>p\<close>.
  Default-initialisation of a trivially default-constructible \<^verbatim>\<open>T\<close> writes nothing and
  cannot throw: the object has the value its storage held, and \<open>default_value T\<close> stands
  for the indeterminate value of storage that never held one.
\<close>

fun construct :: "'a elem_type \<Rightarrow> nat \<Rightarrow> 'a arg \<Rightarrow> ('a, unit) prog" where
  "construct T p (Copy_of src) =
     andthen (read src) (\<lambda>x. andthen (tick Elem_throw) (\<lambda>_. effect (store p x)))"
| "construct T p (Move_of src) =
     andthen (read src) (\<lambda>x. andthen (tick Elem_throw)
       (\<lambda>_. effect (\<lambda>w. store src (moved_from T x) (store p x w))))"
| "construct T p (Emplace x) =
     andthen (tick Elem_throw) (\<lambda>_. effect (store p x))"
| "construct T p Default_init =
     (if trivially_default_constructible T
      then effect (\<lambda>w. case cells w p of None \<Rightarrow> store p (default_value T) w | Some _ \<Rightarrow> w)
      else andthen (tick Elem_throw) (\<lambda>_. effect (store p (default_value T))))"

text \<open>
  \<^verbatim>\<open>*dst = *src\<close> and \<^verbatim>\<open>*dst = std::move(*src)\<close>: assignment needs a constructed
  object on both sides.
\<close>

fun assign_elem :: "'a elem_type \<Rightarrow> nat \<Rightarrow> 'a arg \<Rightarrow> ('a, unit) prog" where
  "assign_elem T dst (Copy_of src) =
     andthen (read src) (\<lambda>x. andthen (read dst) (\<lambda>_. andthen (tick Elem_throw)
       (\<lambda>_. effect (store dst x))))"
| "assign_elem T dst (Move_of src) =
     andthen (read src) (\<lambda>x. andthen (read dst) (\<lambda>_. andthen (tick Elem_throw)
       (\<lambda>_. effect (\<lambda>w. store src (moved_from T x) (store dst x w)))))"
| "assign_elem T dst (Emplace x) =
     andthen (read dst) (\<lambda>_. andthen (tick Elem_throw) (\<lambda>_. effect (store dst x)))"
| "assign_elem T dst Default_init =
     andthen (read dst) (\<lambda>_. andthen (tick Elem_throw)
       (\<lambda>_. effect (store dst (default_value T))))"

text \<open>
  \<^verbatim>\<open>Tr::destroy(alloc_, p)\<close> and \<^verbatim>\<open>std::destroy(first, last)\<close>; destructors do not throw.
  For a trivially destructible \<^verbatim>\<open>T\<close> the library does nothing, so the storage keeps
  what it held.
\<close>

definition destroy_at :: "'a elem_type \<Rightarrow> nat \<Rightarrow> 'a world \<Rightarrow> 'a world" where
  "destroy_at T p w =
     (if trivially_destructible T then w else w\<lparr>cells := (cells w)(p := None)\<rparr>)"

fun destroy_n :: "'a elem_type \<Rightarrow> nat \<Rightarrow> nat \<Rightarrow> 'a world \<Rightarrow> 'a world" where
  "destroy_n T first 0 w = w"
| "destroy_n T first (Suc n) w = destroy_n T (first + 1) n (destroy_at T first w)"

definition destroy :: "'a elem_type \<Rightarrow> nat \<Rightarrow> nat \<Rightarrow> 'a world \<Rightarrow> 'a world" where
  "destroy T first lastp w = destroy_n T first (lastp - first) w"

text \<open>
  The uninitialised-memory algorithms share one loop: construct \<open>n\<close> objects from
  \<open>result\<close> on, the \<open>i\<close>-th from \<open>src i\<close>; when a construction throws, destroy the objects
  built so far and rethrow.
\<close>

fun uninitialized_loop ::
  "'a elem_type \<Rightarrow> (nat \<Rightarrow> 'a arg) \<Rightarrow> nat \<Rightarrow> nat \<Rightarrow> nat \<Rightarrow> ('a, nat) prog" where
  "uninitialized_loop T src result i 0 w = (Inr (result + i), w)"
| "uninitialized_loop T src result i (Suc n) w =
     (case construct T (result + i) (src i) w of
        (Inl e, w1) \<Rightarrow> (Inl e, destroy T result (result + i) w1)
      | (Inr _, w1) \<Rightarrow> uninitialized_loop T src result (i + 1) n w1)"

definition uninitialized_copy :: "'a elem_type \<Rightarrow> nat \<Rightarrow> nat \<Rightarrow> nat \<Rightarrow> ('a, nat) prog" where
  "uninitialized_copy T first lastp result =
     uninitialized_loop T (\<lambda>i. Copy_of (first + i)) result 0 (lastp - first)"

definition uninitialized_move :: "'a elem_type \<Rightarrow> nat \<Rightarrow> nat \<Rightarrow> nat \<Rightarrow> ('a, nat) prog" where
  "uninitialized_move T first lastp result =
     uninitialized_loop T (\<lambda>i. Move_of (first + i)) result 0 (lastp - first)"

definition uninitialized_fill_n :: "'a elem_type \<Rightarrow> nat \<Rightarrow> nat \<Rightarrow> nat \<Rightarrow> ('a, nat) prog" where
  "uninitialized_fill_n T first n val =
     uninitialized_loop T (\<lambda>i. Copy_of val) first 0 n"

definition uninitialized_default_construct_n ::
  "'a elem_type \<Rightarrow> nat \<Rightarrow> nat \<Rightarrow> ('a, nat) prog" where
  "uninitialized_default_construct_n T first n =
     uninitialized_loop T (\<lambda>i. Default_init) first 0 n"

text \<open>
  The assigning algorithms: \<^verbatim>\<open>std::copy\<close>, \<^verbatim>\<open>std::move_backward\<close> and \<^verbatim>\<open>std::fill\<close>.
  Each returns the iterator the library returns.
\<close>

fun copy_n :: "'a elem_type \<Rightarrow> nat \<Rightarrow> nat \<Rightarrow> nat \<Rightarrow> ('a, nat) prog" where
  "copy_n T first 0 d w = (Inr d, w)"
| "copy_n T first (Suc n) d w =
     andthen (assign_elem T d (Copy_of first)) (\<lambda>_. copy_n T (first + 1) n (d + 1)) w"

definition copy :: "'a elem_type \<Rightarrow> nat \<Rightarrow> nat \<Rightarrow> nat \<Rightarrow> ('a, nat) prog" where
  "copy T first lastp d = copy_n T first (lastp - first) d"

fun move_backward_n :: "'a elem_type \<Rightarrow> nat \<Rightarrow> nat \<Rightarrow> nat \<Rightarrow> ('a, nat) prog" where
  "move_backward_n T lastp 0 d_last w = (Inr d_last, w)"
| "move_backward_n T lastp (Suc n) d_last w =
     andthen (assign_elem T (d_last - 1) (Move_of (lastp - 1)))
       (\<lambda>_. move_backward_n T (lastp - 1) n (d_last - 1)) w"

definition move_backward :: "'a elem_type \<Rightarrow> nat \<Rightarrow> nat \<Rightarrow> nat \<Rightarrow> ('a, nat) prog" where
  "move_backward T first lastp d_last = move_backward_n T lastp (lastp - first) d_last"

fun fill_n :: "'a elem_type \<Rightarrow> nat \<Rightarrow> nat \<Rightarrow> nat \<Rightarrow> ('a, nat) prog" where
  "fill_n T first 0 val w = (Inr first, w)"
| "fill_n T first (Suc n) val w =
     andthen (assign_elem T first (Copy_of val)) (\<lambda>_. fill_n T (first + 1) n val) w"

definition fill :: "'a elem_type \<Rightarrow> nat \<Rightarrow> nat \<Rightarrow> nat \<Rightarrow> ('a, unit) prog" where
  "fill T first lastp val = andthen (fill_n T first (lastp - first) val) (\<lambda>_. ret ())"

text \<open>
  \<^verbatim>\<open>std::allocator<T>\<close>: \<open>Tr_allocate\<close> hands out fresh storage at the break and never
  reuses an address, so two blocks never overlap. \<open>Tr_deallocate\<close> takes back a block
  that \<open>Tr_allocate\<close> handed out, with the count it was asked for, once; a null pointer
  is accepted and nothing happens. Any other call is undefined behaviour. The trace
  records the call in either case.
\<close>

definition Tr_allocate :: "nat \<Rightarrow> ('a, nat) prog" where
  "Tr_allocate n =
     andthen (tick Bad_alloc)
       (\<lambda>_ w. (Inr (brk w), w\<lparr>brk := brk w + n, trace := trace w @ [Allocate (brk w) n]\<rparr>))"

definition allocated :: "'a world \<Rightarrow> nat \<Rightarrow> nat \<Rightarrow> bool" where
  "allocated w p n \<longleftrightarrow> Allocate p n \<in> set (trace w) \<and> Deallocate p n \<notin> set (trace w)"

definition Tr_deallocate :: "nat \<Rightarrow> nat \<Rightarrow> ('a, unit) prog" where
  "Tr_deallocate p n w =
     (if p = 0 \<or> allocated w p n then Inr () else Inl Undefined_behaviour,
      w\<lparr>trace := trace w @ [Deallocate p n]\<rparr>)"

section \<open>The vector\<close>

subsection \<open>Capacity queries\<close>

definition size_v :: "'a world \<Rightarrow> nat \<Rightarrow> nat" where
  "size_v w this = finish (objs w this) - start (objs w this)"

definition capacity :: "'a world \<Rightarrow> nat \<Rightarrow> nat" where
  "capacity w this = end_of_storage (objs w this) - start (objs w this)"

text \<open>
  \<^verbatim>\<open>max_size()\<close>: the lesser of \<^verbatim>\<open>PTRDIFF_MAX / sizeof(T)\<close> and the allocator's
  \<^verbatim>\<open>SIZE_MAX / sizeof(T)\<close>, on a 64-bit \<^verbatim>\<open>size_t\<close>.
\<close>

definition max_size :: "'a elem_type \<Rightarrow> nat" where
  "max_size T = min ((2 ^ 63 - 1) div sizeof T) ((2 ^ 64 - 1) div sizeof T)"

text \<open>The live elements, read off the memory between \<open>start\<close> and \<open>finish\<close>.\<close>

definition elements :: "'a world \<Rightarrow> nat \<Rightarrow> 'a option list" where
  "elements w this = map (cells w) [start (objs w this) ..< finish (objs w this)]"

subsection \<open>Private helpers\<close>

definition set_finish :: "nat \<Rightarrow> nat \<Rightarrow> 'a world \<Rightarrow> 'a world" where
  "set_finish this p w = w\<lparr>objs := (objs w)(this := (objs w this)\<lparr>finish := p\<rparr>)\<rparr>"

definition set_end_of_storage :: "nat \<Rightarrow> nat \<Rightarrow> 'a world \<Rightarrow> 'a world" where
  "set_end_of_storage this p w =
     w\<lparr>objs := (objs w)(this := (objs w this)\<lparr>end_of_storage := p\<rparr>)\<rparr>"

definition set_vec :: "nat \<Rightarrow> nat \<Rightarrow> nat \<Rightarrow> nat \<Rightarrow> 'a world \<Rightarrow> 'a world" where
  "set_vec this s f e w =
     w\<lparr>objs := (objs w)(this := \<lparr>start = s, finish = f, end_of_storage = e\<rparr>)\<rparr>"

definition allocate :: "nat \<Rightarrow> ('a, nat) prog" where
  "allocate count = (if count \<noteq> 0 then Tr_allocate count else ret 0)"

definition deallocate :: "nat \<Rightarrow> nat \<Rightarrow> ('a, unit) prog" where
  "deallocate p count = (if p \<noteq> 0 then Tr_deallocate p count else ret ())"

definition allocate_and_copy :: "'a elem_type \<Rightarrow> nat \<Rightarrow> nat \<Rightarrow> nat \<Rightarrow> ('a, nat) prog" where
  "allocate_and_copy T count first lastp =
     andthen (allocate count) (\<lambda>result.
     andthen (uninitialized_copy T first lastp result) (\<lambda>_. ret result))"

definition erase_at_end :: "'a elem_type \<Rightarrow> nat \<Rightarrow> nat \<Rightarrow> 'a world \<Rightarrow> 'a world" where
  "erase_at_end T this position w =
     (if finish (objs w this) - position \<noteq> 0
      then set_finish this position (destroy T position (finish (objs w this)) w)
      else w)"

definition clear :: "'a elem_type \<Rightarrow> nat \<Rightarrow> 'a world \<Rightarrow> 'a world" where
  "clear T this w = erase_at_end T this (start (objs w this)) w"

definition check_init_len :: "'a elem_type \<Rightarrow> nat \<Rightarrow> ('a, nat) prog" where
  "check_init_len T count = (if count > max_size T then throw Length_error else ret count)"

text \<open>
  \<^verbatim>\<open>check_len\<close> computes in \<^verbatim>\<open>size_type\<close>: both sums wrap at \<open>2 ^ 64\<close>.
\<close>

definition check_len :: "'a elem_type \<Rightarrow> nat \<Rightarrow> nat \<Rightarrow> ('a, nat) prog" where
  "check_len T this count w =
     (if max_size T < (count + size_v w this) mod 2 ^ 64 then throw Length_error w
      else
        let len = (size_v w this + max count (size_v w this)) mod 2 ^ 64
        in ret (if len < size_v w this \<or> len > max_size T then max_size T else len) w)"


text \<open>
  \<^verbatim>\<open>unrealloc_insert\<close>: the loop \<^verbatim>\<open>for (it = end() - 1; it != position; --it) *it = *(it - 1)\<close>
  runs \<open>n\<close> times from \<open>it\<close> downwards.
\<close>

fun unrealloc_insert_loop :: "'a elem_type \<Rightarrow> nat \<Rightarrow> nat \<Rightarrow> ('a, unit) prog" where
  "unrealloc_insert_loop T it 0 w = (Inr (), w)"
| "unrealloc_insert_loop T it (Suc n) w =
     andthen (assign_elem T it (Copy_of (it - 1))) (\<lambda>_. unrealloc_insert_loop T (it - 1) n) w"

definition unrealloc_insert :: "'a elem_type \<Rightarrow> nat \<Rightarrow> nat \<Rightarrow> 'a arg \<Rightarrow> ('a, unit) prog" where
  "unrealloc_insert T this position args w =
     (if position = finish (objs w this)
      then
        andthen (construct T (finish (objs w this)) args) (\<lambda>_.
        effect (\<lambda>w1. set_finish this (finish (objs w1 this) + 1) w1)) w
      else
        andthen (construct T (finish (objs w this)) (Copy_of (finish (objs w this) - 1))) (\<lambda>_.
        andthen (unrealloc_insert_loop T (finish (objs w this) - 1)
                   (finish (objs w this) - 1 - position)) (\<lambda>_.
        andthen (effect (destroy_at T position)) (\<lambda>_.
        andthen (construct T position args) (\<lambda>_.
        effect (\<lambda>w1. set_finish this (finish (objs w1 this) + 1) w1))))) w)"

definition realloc_insert :: "'a elem_type \<Rightarrow> nat \<Rightarrow> nat \<Rightarrow> 'a arg \<Rightarrow> ('a, unit) prog" where
  "realloc_insert T this position args w =
     andthen (check_len T this 1) (\<lambda>new_capacity.
     let old_start = start (objs w this);
         old_finish = finish (objs w this);
         elems_before = position - start (objs w this)
     in
     andthen (allocate new_capacity) (\<lambda>new_start.
     andthen (construct T (new_start + elems_before) args) (\<lambda>_.
     andthen (uninitialized_move T old_start position new_start) (\<lambda>new_finish.
     andthen (uninitialized_move T position old_finish (new_finish + 1)) (\<lambda>new_finish.
     andthen (effect (destroy T old_start old_finish)) (\<lambda>_.
     andthen (\<lambda>w1. deallocate old_start
                (end_of_storage (objs w1 this) - old_start) w1) (\<lambda>_.
     effect (set_vec this new_start new_finish (new_start + new_capacity))))))))) w"

definition fill_insert :: "'a elem_type \<Rightarrow> nat \<Rightarrow> nat \<Rightarrow> nat \<Rightarrow> nat \<Rightarrow> ('a, unit) prog" where
  "fill_insert T this position count val w =
     (if count \<noteq> 0 then
        if end_of_storage (objs w this) - finish (objs w this) > count then
          let elems_after = finish (objs w this) - position;
              old_finish = finish (objs w this)
          in
          if elems_after > count then
            andthen (uninitialized_move T (old_finish - count) old_finish old_finish) (\<lambda>_.
            andthen (effect (set_finish this (old_finish + count))) (\<lambda>_.
            andthen (move_backward T position (old_finish - count) old_finish) (\<lambda>_.
            fill T position (position + count) val))) w
          else
            andthen (uninitialized_fill_n T old_finish (count - elems_after) val) (\<lambda>r.
            andthen (effect (set_finish this r)) (\<lambda>_.
            andthen (\<lambda>w1. uninitialized_move T position old_finish (finish (objs w1 this)) w1)
              (\<lambda>_.
            andthen (effect (\<lambda>w1. set_finish this (finish (objs w1 this) + elems_after) w1))
              (\<lambda>_.
            fill T position old_finish val)))) w
        else
          andthen (check_len T this count) (\<lambda>new_capacity.
          let old_start = start (objs w this);
              old_finish = finish (objs w this)
          in
          andthen (allocate new_capacity) (\<lambda>new_start.
          let elems_before = position - start (objs w this) in
          andthen (uninitialized_fill_n T (new_start + elems_before) count val) (\<lambda>_.
          andthen (uninitialized_move T old_start position new_start) (\<lambda>new_finish.
          andthen (uninitialized_move T position old_finish (new_finish + count))
            (\<lambda>new_finish.
          andthen (effect (destroy T old_start old_finish)) (\<lambda>_.
          andthen (\<lambda>w1. deallocate old_start
                     (end_of_storage (objs w1 this) - old_start) w1) (\<lambda>_.
          effect (set_vec this new_start new_finish (new_start + new_capacity))))))))) w
      else (Inr (), w))"

text \<open>
  \<^verbatim>\<open>range_insert\<close>, for a range of pointers \<^verbatim>\<open>[first, last)\<close> into the same memory.
\<close>

definition range_insert :: "'a elem_type \<Rightarrow> nat \<Rightarrow> nat \<Rightarrow> nat \<Rightarrow> nat \<Rightarrow> ('a, unit) prog" where
  "range_insert T this pos first lastp w =
     (if first \<noteq> lastp then
        let n = lastp - first in
        if end_of_storage (objs w this) - finish (objs w this) > n then
          let elems_after = finish (objs w this) - pos;
              old_finish = finish (objs w this)
          in
          if elems_after > n then
            andthen (uninitialized_move T (old_finish - n) old_finish old_finish) (\<lambda>_.
            andthen (effect (set_finish this (old_finish + n))) (\<lambda>_.
            andthen (move_backward T pos (old_finish - n) old_finish) (\<lambda>_.
            andthen (copy T first lastp pos) (\<lambda>_. ret ())))) w
          else
            let mid = first + elems_after in
            andthen (\<lambda>w1. uninitialized_copy T mid lastp (finish (objs w1 this)) w1) (\<lambda>r.
            andthen (effect (set_finish this r)) (\<lambda>_.
            andthen (\<lambda>w1. uninitialized_move T pos old_finish (finish (objs w1 this)) w1)
              (\<lambda>_.
            andthen (effect (\<lambda>w1. set_finish this (finish (objs w1 this) + elems_after) w1))
              (\<lambda>_.
            andthen (copy T first mid pos) (\<lambda>_. ret ()))))) w
        else
          andthen (check_len T this n) (\<lambda>new_capacity.
          let old_start = start (objs w this);
              old_finish = finish (objs w this)
          in
          andthen (allocate new_capacity) (\<lambda>new_start.
          let elems_before = pos - start (objs w this) in
          andthen (uninitialized_copy T first lastp (new_start + elems_before)) (\<lambda>_.
          andthen (uninitialized_move T old_start pos new_start) (\<lambda>new_finish.
          andthen (uninitialized_move T pos old_finish (new_finish + n)) (\<lambda>new_finish.
          andthen (effect (destroy T old_start old_finish)) (\<lambda>_.
          andthen (\<lambda>w1. deallocate old_start
                     (end_of_storage (objs w1 this) - old_start) w1) (\<lambda>_.
          effect (set_vec this new_start new_finish (new_start + new_capacity))))))))) w
      else (Inr (), w))"

definition default_append :: "'a elem_type \<Rightarrow> nat \<Rightarrow> nat \<Rightarrow> ('a, unit) prog" where
  "default_append T this n w =
     (if n \<noteq> 0 then
        let size = size_v w this;
            available = end_of_storage (objs w this) - finish (objs w this)
        in
        if available \<ge> n then
          andthen (uninitialized_default_construct_n T (finish (objs w this)) n) (\<lambda>r.
          effect (set_finish this r)) w
        else
          let old_start = start (objs w this);
              old_finish = finish (objs w this)
          in
          andthen (check_len T this n) (\<lambda>new_capacity.
          andthen (allocate new_capacity) (\<lambda>new_start.
          andthen (uninitialized_move T old_start old_finish new_start) (\<lambda>new_finish.
          andthen (uninitialized_default_construct_n T new_finish n) (\<lambda>_.
          andthen (effect (destroy T old_start old_finish)) (\<lambda>_.
          andthen (\<lambda>w1. deallocate old_start
                     (end_of_storage (objs w1 this) - old_start) w1) (\<lambda>_.
          effect (set_vec this new_start (new_start + size + n)
                    (new_start + new_capacity)))))))) w
      else (Inr (), w))"

definition range_assign :: "'a elem_type \<Rightarrow> nat \<Rightarrow> nat \<Rightarrow> nat \<Rightarrow> ('a, unit) prog" where
  "range_assign T this first lastp w =
     (let len = lastp - first in
      if len > capacity w this then
        andthen (check_init_len T len) (\<lambda>_.
        andthen (allocate_and_copy T len first lastp) (\<lambda>new_start.
        andthen (effect (\<lambda>w1. destroy T (start (objs w1 this)) (finish (objs w1 this)) w1))
          (\<lambda>_.
        andthen (\<lambda>w1. deallocate (start (objs w1 this))
                   (end_of_storage (objs w1 this) - start (objs w1 this)) w1) (\<lambda>_.
        effect (set_vec this new_start (new_start + len) (new_start + len)))))) w
      else if size_v w this \<ge> len then
        andthen (copy T first lastp (start (objs w this))) (\<lambda>r.
        effect (erase_at_end T this r)) w
      else
        let mid = first + size_v w this in
        andthen (copy T first mid (start (objs w this))) (\<lambda>_.
        andthen (\<lambda>w1. uninitialized_copy T mid lastp (finish (objs w1 this)) w1) (\<lambda>r.
        effect (set_finish this r))) w)"


subsection \<open>Destruction\<close>

text \<open>\<^verbatim>\<open>~vector()\<close> passes \<^verbatim>\<open>size()\<close> to the allocator, and does so without a null test.\<close>

definition destructor :: "'a elem_type \<Rightarrow> nat \<Rightarrow> ('a, unit) prog" where
  "destructor T this =
     andthen (effect (\<lambda>w. destroy T (start (objs w this)) (finish (objs w this)) w)) (\<lambda>_.
     andthen (\<lambda>w. Tr_deallocate (start (objs w this)) (size_v w this) w) (\<lambda>_.
     effect (set_vec this 0 0 0)))"

subsection \<open>Assignment\<close>

text \<open>\<^verbatim>\<open>operator=(const vector& other)\<close>; \<open>other\<close> is the address of the argument.\<close>

definition copy_assign :: "'a elem_type \<Rightarrow> nat \<Rightarrow> nat \<Rightarrow> ('a, unit) prog" where
  "copy_assign T this other w =
     (if other \<noteq> this then
        let other_size = size_v w other in
        if other_size > capacity w this then
          andthen (allocate_and_copy T other_size (start (objs w other)) (finish (objs w other)))
            (\<lambda>new_start.
          andthen (effect (\<lambda>w1. destroy T (start (objs w1 this)) (finish (objs w1 this)) w1))
            (\<lambda>_.
          andthen (\<lambda>w1. deallocate (start (objs w1 this))
                     (end_of_storage (objs w1 this) - start (objs w1 this)) w1) (\<lambda>_.
          effect (set_vec this new_start (new_start + other_size) (new_start + other_size)))))
            w
        else
          andthen
            (if size_v w this \<ge> other_size then
               andthen (copy T (start (objs w other)) (finish (objs w other))
                          (start (objs w this))) (\<lambda>r.
               effect (\<lambda>w1. destroy T r (finish (objs w1 this)) w1))
             else
               andthen (copy T (start (objs w other)) (start (objs w other) + size_v w this)
                          (start (objs w this))) (\<lambda>_.
               andthen (\<lambda>w1. uninitialized_copy T (start (objs w1 other) + size_v w1 this)
                          (finish (objs w1 other)) (finish (objs w1 this)) w1) (\<lambda>_. ret ())))
            (\<lambda>_. effect (\<lambda>w1. set_finish this (start (objs w1 this) + other_size) w1)) w
      else (Inr (), w))"

text \<open>\<^verbatim>\<open>operator=(vector&& other) noexcept\<close>.\<close>

definition move_assign :: "'a elem_type \<Rightarrow> nat \<Rightarrow> nat \<Rightarrow> ('a, unit) prog" where
  "move_assign T this other w =
     (if other \<noteq> this then
        andthen (effect (clear T this)) (\<lambda>_.
        andthen (\<lambda>w1. deallocate (start (objs w1 this))
                   (end_of_storage (objs w1 this) - start (objs w1 this)) w1) (\<lambda>_.
        andthen (effect (\<lambda>w1. set_vec this (start (objs w1 other)) (finish (objs w1 other))
                   (end_of_storage (objs w1 other)) w1)) (\<lambda>_.
        effect (set_vec other 0 0 0)))) w
      else (Inr (), w))"

text \<open>\<^verbatim>\<open>assign(InputIterator first, InputIterator last)\<close>, for pointers.\<close>

definition assign_range :: "'a elem_type \<Rightarrow> nat \<Rightarrow> nat \<Rightarrow> nat \<Rightarrow> ('a, unit) prog" where
  "assign_range T this first lastp = range_assign T this first lastp"

subsection \<open>Capacity\<close>

definition reserve :: "'a elem_type \<Rightarrow> nat \<Rightarrow> nat \<Rightarrow> ('a, unit) prog" where
  "reserve T this new_cap w =
     (if new_cap > max_size T then throw Length_error w
      else if capacity w this < new_cap then
        let old_size = size_v w this in
        andthen (allocate_and_copy T new_cap (start (objs w this)) (finish (objs w this)))
          (\<lambda>temp.
        andthen (effect (\<lambda>w1. destroy T (start (objs w1 this)) (finish (objs w1 this)) w1))
          (\<lambda>_.
        andthen (\<lambda>w1. deallocate (start (objs w1 this))
                   (end_of_storage (objs w1 this) - start (objs w1 this)) w1) (\<lambda>_.
        effect (set_vec this temp (temp + old_size) (temp + new_cap))))) w
      else (Inr (), w))"

definition shrink_to_fit :: "nat \<Rightarrow> ('a, unit) prog" where
  "shrink_to_fit this w =
     (if capacity w this > size_v w this then
        andthen (deallocate (finish (objs w this))
                   (end_of_storage (objs w this) - finish (objs w this))) (\<lambda>_.
        effect (\<lambda>w1. set_end_of_storage this (finish (objs w1 this)) w1)) w
      else (Inr (), w))"

subsection \<open>Modifiers\<close>

text \<open>
  The \<^verbatim>\<open>insert\<close> overloads return \<^verbatim>\<open>start_ + diff\<close>, read after the insertion.
  \<open>val\<close> is the address the reference argument is bound to.
\<close>

definition insert_copy :: "'a elem_type \<Rightarrow> nat \<Rightarrow> nat \<Rightarrow> nat \<Rightarrow> ('a, nat) prog" where
  "insert_copy T this pos val w =
     (let diff = pos - start (objs w this) in
      andthen
        (if finish (objs w this) \<noteq> end_of_storage (objs w this)
         then unrealloc_insert T this (start (objs w this) + (pos - start (objs w this)))
                (Copy_of val)
         else realloc_insert T this (start (objs w this) + (pos - start (objs w this)))
                (Copy_of val))
        (\<lambda>_ w1. (Inr (start (objs w1 this) + diff), w1)) w)"

definition insert_move :: "'a elem_type \<Rightarrow> nat \<Rightarrow> nat \<Rightarrow> nat \<Rightarrow> ('a, nat) prog" where
  "insert_move T this pos val w =
     (let diff = pos - start (objs w this) in
      andthen
        (if finish (objs w this) \<noteq> end_of_storage (objs w this)
         then unrealloc_insert T this (start (objs w this) + (pos - start (objs w this)))
                (Move_of val)
         else realloc_insert T this (start (objs w this) + (pos - start (objs w this)))
                (Move_of val))
        (\<lambda>_ w1. (Inr (start (objs w1 this) + diff), w1)) w)"

definition insert_fill :: "'a elem_type \<Rightarrow> nat \<Rightarrow> nat \<Rightarrow> nat \<Rightarrow> nat \<Rightarrow> ('a, nat) prog" where
  "insert_fill T this pos count val w =
     (let diff = pos - start (objs w this) in
      andthen (fill_insert T this (start (objs w this) + diff) count val)
        (\<lambda>_ w1. (Inr (start (objs w1 this) + diff), w1)) w)"

definition insert_range :: "'a elem_type \<Rightarrow> nat \<Rightarrow> nat \<Rightarrow> nat \<Rightarrow> nat \<Rightarrow> ('a, nat) prog" where
  "insert_range T this position first lastp w =
     (let diff = position - start (objs w this) in
      andthen (range_insert T this (start (objs w this) + diff) first lastp)
        (\<lambda>_ w1. (Inr (start (objs w1 this) + diff), w1)) w)"

definition emplace :: "'a elem_type \<Rightarrow> nat \<Rightarrow> nat \<Rightarrow> 'a arg \<Rightarrow> ('a, unit) prog" where
  "emplace T this position args w =
     (if finish (objs w this) \<noteq> end_of_storage (objs w this)
      then unrealloc_insert T this (start (objs w this) + (position - start (objs w this)))
             args w
      else realloc_insert T this (start (objs w this) + (position - start (objs w this)))
             args w)"

definition emplace_back :: "'a elem_type \<Rightarrow> nat \<Rightarrow> 'a arg \<Rightarrow> ('a, unit) prog" where
  "emplace_back T this args w =
     (if finish (objs w this) \<noteq> end_of_storage (objs w this)
      then andthen (construct T (finish (objs w this)) args) (\<lambda>_.
           effect (\<lambda>w1. set_finish this (finish (objs w1 this) + 1) w1)) w
      else realloc_insert T this (finish (objs w this)) args w)"

definition push_back :: "'a elem_type \<Rightarrow> nat \<Rightarrow> nat \<Rightarrow> ('a, unit) prog" where
  "push_back T this val w =
     (if finish (objs w this) \<noteq> end_of_storage (objs w this)
      then andthen (construct T (finish (objs w this)) (Copy_of val)) (\<lambda>_.
           effect (\<lambda>w1. set_finish this (finish (objs w1 this) + 1) w1)) w
      else realloc_insert T this (finish (objs w this)) (Copy_of val) w)"

definition push_back_move :: "'a elem_type \<Rightarrow> nat \<Rightarrow> nat \<Rightarrow> ('a, unit) prog" where
  "push_back_move T this val = emplace_back T this (Move_of val)"

definition resize :: "'a elem_type \<Rightarrow> nat \<Rightarrow> nat \<Rightarrow> ('a, unit) prog" where
  "resize T this new_size w =
     (if new_size > size_v w this then
        let diff = new_size - size_v w this in default_append T this diff w
      else if new_size < size_v w this then
        (Inr (), erase_at_end T this (start (objs w this) + new_size) w)
      else (Inr (), w))"

definition resize_fill :: "'a elem_type \<Rightarrow> nat \<Rightarrow> nat \<Rightarrow> nat \<Rightarrow> ('a, unit) prog" where
  "resize_fill T this new_size val w =
     (if new_size > size_v w this then
        andthen (insert_fill T this (finish (objs w this)) (new_size - size_v w this) val)
          (\<lambda>_. ret ()) w
      else if new_size < size_v w this then
        (Inr (), erase_at_end T this (start (objs w this) + new_size) w)
      else (Inr (), w))"

subsection \<open>Comparison\<close>

text \<open>
  \<^verbatim>\<open>std::equal(first1, last1, first2)\<close> stops at the first pair that does not compare
  equal; the comparison itself is \<^verbatim>\<open>T\<close>'s \<^verbatim>\<open>operator==\<close>.
\<close>

fun equal_n :: "'a elem_type \<Rightarrow> nat \<Rightarrow> nat \<Rightarrow> nat \<Rightarrow> ('a, bool) prog" where
  "equal_n T first1 0 first2 w = (Inr True, w)"
| "equal_n T first1 (Suc n) first2 w =
     andthen (read first1) (\<lambda>x. andthen (read first2) (\<lambda>y.
       if eq T x y then equal_n T (first1 + 1) n (first2 + 1) else ret False)) w"

definition operator_eq :: "'a elem_type \<Rightarrow> nat \<Rightarrow> nat \<Rightarrow> ('a, bool) prog" where
  "operator_eq T lhs rhs w =
     (if size_v w lhs = size_v w rhs
      then equal_n T (start (objs w lhs)) (finish (objs w lhs) - start (objs w lhs))
             (start (objs w rhs)) w
      else (Inr False, w))"

definition operator_ne :: "'a elem_type \<Rightarrow> nat \<Rightarrow> nat \<Rightarrow> ('a, bool) prog" where
  "operator_ne T lhs rhs = andthen (operator_eq T lhs rhs) (\<lambda>b. ret (\<not> b))"


section \<open>Well-formed vectors, growth calls and sample states\<close>

text \<open>
  The container's invariant: the pointers are ordered, the buffer lies in storage the
  allocator has handed out, the capacity is within \<open>max_size\<close>, and every slot of
  \<open>[start, finish)\<close> holds a constructed element.
\<close>

definition live :: "'a world \<Rightarrow> nat \<Rightarrow> bool" where
  "live w this \<longleftrightarrow>
     list_all (\<lambda>p. cells w p \<noteq> None) [start (objs w this) ..< finish (objs w this)]"

definition valid_vector :: "'a elem_type \<Rightarrow> 'a world \<Rightarrow> nat \<Rightarrow> bool" where
  "valid_vector T w this \<longleftrightarrow>
     start (objs w this) \<le> finish (objs w this) \<and>
     finish (objs w this) \<le> end_of_storage (objs w this) \<and>
     end_of_storage (objs w this) \<le> brk w \<and> 0 < brk w \<and>
     capacity w this \<le> max_size T \<and> live w this"

text \<open>
  The vector owns its buffer when it has none or when the allocator handed out exactly
  \<open>[start, end_of_storage)\<close> and has not taken it back. The allocator's history is in
  order when every block it handed out is non-empty and lies below the break, and every
  pointer it was given back does.
\<close>

definition owns_buffer :: "'a world \<Rightarrow> nat \<Rightarrow> bool" where
  "owns_buffer w this \<longleftrightarrow>
     start (objs w this) = 0 \<or> allocated w (start (objs w this)) (capacity w this)"

definition heap_ok :: "'a world \<Rightarrow> bool" where
  "heap_ok w \<longleftrightarrow>
     list_all (\<lambda>e. case e of Allocate p n \<Rightarrow> 0 < n \<and> p + n \<le> brk w
                          | Deallocate p n \<Rightarrow> p < brk w) (trace w)"

text \<open>
  What a failed transfer may have done to an old element: nothing, or moved from it
  (\<open>k\<close> times).
\<close>

definition kept :: "'a elem_type \<Rightarrow> 'a option \<Rightarrow> 'a option \<Rightarrow> bool" where
  "kept T c c' \<longleftrightarrow> (\<exists>k. c' = map_option ((moved_from T) ^^ k) c)"

text \<open>
  \<open>frame R p w w'\<close>: from \<open>w\<close> to \<open>w'\<close> no vector object, no allocator state and no
  allocator call has changed, and each cell below \<open>p\<close> has changed within \<open>R\<close> only.
\<close>

definition frame ::
  "('a option \<Rightarrow> 'a option \<Rightarrow> bool) \<Rightarrow> nat \<Rightarrow> 'a world \<Rightarrow> 'a world \<Rightarrow> bool" where
  "frame R p w w' \<longleftrightarrow>
     objs w' = objs w \<and> brk w' = brk w \<and> trace w' = trace w \<and>
     (\<forall>a<p. R (cells w a) (cells w' a))"

definition movable :: "'a elem_type \<Rightarrow> ('a option \<Rightarrow> 'a option \<Rightarrow> bool) \<Rightarrow> bool" where
  "movable T R \<longleftrightarrow> (\<forall>x. R (Some x) (Some (moved_from T x)))"

definition is_move :: "'a arg \<Rightarrow> bool" where
  "is_move a = (case a of Move_of _ \<Rightarrow> True | _ \<Rightarrow> False)"

definition keeps ::
  "('a option \<Rightarrow> 'a option \<Rightarrow> bool) \<Rightarrow> nat \<Rightarrow> ('a, 'r) prog \<Rightarrow> ('r \<Rightarrow> bool) \<Rightarrow> bool" where
  "keeps R p m Q \<longleftrightarrow>
     (\<forall>w r w'. m w = (r, w') \<longrightarrow> frame R p w w' \<and> (\<forall>x. r = Inr x \<longrightarrow> Q x))"

definition keeps_on_failure ::
  "('a option \<Rightarrow> 'a option \<Rightarrow> bool) \<Rightarrow> nat \<Rightarrow> ('a, 'r) prog \<Rightarrow> bool" where
  "keeps_on_failure R p m \<longleftrightarrow> (\<forall>w w'. m w = (Inl Elem_throw, w') \<longrightarrow> frame R p w w')"

text \<open>A step is quiet when it makes no allocator call.\<close>

definition quiet :: "('a, 'r) prog \<Rightarrow> bool" where
  "quiet m \<longleftrightarrow> (\<forall>w r w'. m w = (r, w') \<longrightarrow> trace w' = trace w)"

text \<open>
  \<open>leaked R w w'\<close>: between \<open>w\<close> and \<open>w'\<close> the allocator was asked for one block, at the
  old break, and for nothing else, no vector object has changed, and the cells below
  the old break have changed within \<open>R\<close> only. The block has not been given back.
\<close>

definition leaked ::
  "('a option \<Rightarrow> 'a option \<Rightarrow> bool) \<Rightarrow> 'a world \<Rightarrow> 'a world \<Rightarrow> bool" where
  "leaked R w w' \<longleftrightarrow>
     objs w' = objs w \<and>
     (\<exists>n>0. trace w' = trace w @ [Allocate (brk w) n] \<and> brk w' = brk w + n) \<and>
     (\<forall>a<brk w. R (cells w a) (cells w' a))"

text \<open>
  The growth calls of the public interface, so that one statement can range over all of
  them; \<open>growth_call\<close> dispatches to the member function and drops the iterator the
  \<^verbatim>\<open>insert\<close> overloads return.
\<close>

datatype 'a growth =
    Push_back nat
  | Push_back_move nat
  | Emplace_back "'a arg"
  | Insert nat nat
  | Insert_move nat nat
  | Emplace_at nat "'a arg"
  | Insert_fill nat nat nat
  | Insert_range nat nat nat
  | Resize nat
  | Resize_fill nat nat
  | Reserve nat

fun growth_call :: "'a elem_type \<Rightarrow> nat \<Rightarrow> 'a growth \<Rightarrow> ('a, unit) prog" where
  "growth_call T this (Push_back val) = push_back T this val"
| "growth_call T this (Push_back_move val) = push_back_move T this val"
| "growth_call T this (Emplace_back args) = emplace_back T this args"
| "growth_call T this (Insert pos val) = andthen (insert_copy T this pos val) (\<lambda>_. ret ())"
| "growth_call T this (Insert_move pos val) = andthen (insert_move T this pos val) (\<lambda>_. ret ())"
| "growth_call T this (Emplace_at pos args) = emplace T this pos args"
| "growth_call T this (Insert_fill pos count val) =
     andthen (insert_fill T this pos count val) (\<lambda>_. ret ())"
| "growth_call T this (Insert_range pos first lastp) =
     andthen (insert_range T this pos first lastp) (\<lambda>_. ret ())"
| "growth_call T this (Resize new_size) = resize T this new_size"
| "growth_call T this (Resize_fill new_size val) = resize_fill T this new_size val"
| "growth_call T this (Reserve new_cap) = reserve T this new_cap"

text \<open>
  Two element types: one like \<^verbatim>\<open>int\<close> (four bytes, trivial, a move leaves the source
  as it was) and a string class of 32 bytes whose move leaves the source empty.
\<close>

definition int_like :: "nat elem_type" where
  "int_like =
     \<lparr>sizeof = 4, trivially_default_constructible = True, trivially_destructible = True,
      default_value = 0, moved_from = (\<lambda>x. x), eq = (=)\<rparr>"

definition string_like :: "string elem_type" where
  "string_like =
     \<lparr>sizeof = 32, trivially_default_constructible = False, trivially_destructible = False,
      default_value = [], moved_from = (\<lambda>_. []), eq = (=)\<rparr>"

text \<open>
  Sample states. \<open>fresh\<close> holds default-constructed vectors only and no storage.
  The others are what the calls named in the \<open>reached\<close> lemmas below build from it.
\<close>

definition fresh :: "'a world" where
  "fresh = \<lparr>objs = (\<lambda>_. \<lparr>start = 0, finish = 0, end_of_storage = 0\<rparr>),
            cells = (\<lambda>_. None), brk = 16, trace = [], fuse = None\<rparr>"

text \<open>\<^verbatim>\<open>v.reserve(2); v.emplace_back(7)\<close>: size 1, capacity 2.\<close>

definition one_of_two :: "nat world" where
  "one_of_two =
     \<lparr>objs = (\<lambda>_. \<lparr>start = 0, finish = 0, end_of_storage = 0\<rparr>)
               (0 := \<lparr>start = 16, finish = 17, end_of_storage = 18\<rparr>),
      cells = (\<lambda>_. None)(16 \<mapsto> 7), brk = 18, trace = [Allocate 16 2], fuse = None\<rparr>"

text \<open>\<^verbatim>\<open>v.emplace_back(7)\<close>: size 1, capacity 1.\<close>

definition one_of_one :: "nat world" where
  "one_of_one =
     \<lparr>objs = (\<lambda>_. \<lparr>start = 0, finish = 0, end_of_storage = 0\<rparr>)
               (0 := \<lparr>start = 16, finish = 17, end_of_storage = 17\<rparr>),
      cells = (\<lambda>_. None)(16 \<mapsto> 7), brk = 17, trace = [Allocate 16 1], fuse = None\<rparr>"

text \<open>\<^verbatim>\<open>c.reserve(2); c.emplace_back(1); c.emplace_back(2)\<close>: a full vector.\<close>

definition two_of_two :: "nat world" where
  "two_of_two =
     \<lparr>objs = (\<lambda>_. \<lparr>start = 0, finish = 0, end_of_storage = 0\<rparr>)
               (0 := \<lparr>start = 16, finish = 18, end_of_storage = 18\<rparr>),
      cells = (\<lambda>_. None)(16 \<mapsto> 1, 17 \<mapsto> 2), brk = 18,
      trace = [Allocate 16 2], fuse = None\<rparr>"

text \<open>\<^verbatim>\<open>c.reserve(4); c.emplace_back(1); c.emplace_back(2); c.emplace_back(3)\<close>.\<close>

definition three_of_four :: "nat world" where
  "three_of_four =
     \<lparr>objs = (\<lambda>_. \<lparr>start = 0, finish = 0, end_of_storage = 0\<rparr>)
               (0 := \<lparr>start = 16, finish = 19, end_of_storage = 20\<rparr>),
      cells = (\<lambda>_. None)(16 \<mapsto> 1, 17 \<mapsto> 2, 18 \<mapsto> 3), brk = 20,
      trace = [Allocate 16 4], fuse = None\<rparr>"

text \<open>
  \<^verbatim>\<open>s.reserve(2); s.emplace_back("a"); s.emplace_back("b")\<close>: a full vector of two
  strings, next to a string \<^verbatim>\<open>x = "c"\<close> at address 8. \<open>two_strings_fused k\<close> is the
  same state with the fault armed.
\<close>

definition two_strings :: "string world" where
  "two_strings =
     \<lparr>objs = (\<lambda>_. \<lparr>start = 0, finish = 0, end_of_storage = 0\<rparr>)
               (0 := \<lparr>start = 16, finish = 18, end_of_storage = 18\<rparr>),
      cells = (\<lambda>_. None)(8 \<mapsto> ''c'', 16 \<mapsto> ''a'', 17 \<mapsto> ''b''), brk = 18,
      trace = [Allocate 16 2], fuse = None\<rparr>"

definition two_strings_fused :: "nat \<Rightarrow> string world" where
  "two_strings_fused k = two_strings\<lparr>fuse := Some k\<rparr>"

text \<open>
  Three vectors side by side: \<open>a = [1, 2]\<close>, \<open>b = [1, 2]\<close> and \<open>c = [1, 3]\<close>, each built
  by \<^verbatim>\<open>reserve(2)\<close> and two \<^verbatim>\<open>emplace_back\<close> calls.
\<close>

definition three_vectors :: "nat world" where
  "three_vectors =
     \<lparr>objs = (\<lambda>_. \<lparr>start = 0, finish = 0, end_of_storage = 0\<rparr>)
               (0 := \<lparr>start = 16, finish = 18, end_of_storage = 18\<rparr>,
                1 := \<lparr>start = 18, finish = 20, end_of_storage = 20\<rparr>,
                2 := \<lparr>start = 20, finish = 22, end_of_storage = 22\<rparr>),
      cells = (\<lambda>_. None)(16 \<mapsto> 1, 17 \<mapsto> 2, 18 \<mapsto> 1, 19 \<mapsto> 2, 20 \<mapsto> 1, 21 \<mapsto> 3),
      brk = 22, trace = [Allocate 16 2, Allocate 18 2, Allocate 20 2], fuse = None\<rparr>"

section \<open>Evaluation rules\<close>

lemmas prims = andthen_def ret_def effect_def throw_def tick_def read_def store_def
  destroy_at_def destroy_def Tr_allocate_def Tr_deallocate_def allocated_def allocate_def
  deallocate_def
  set_finish_def set_end_of_storage_def set_vec_def size_v_def capacity_def elements_def
  uninitialized_copy_def uninitialized_move_def uninitialized_fill_n_def
  uninitialized_default_construct_n_def copy_def move_backward_def fill_def
  allocate_and_copy_def erase_at_end_def clear_def check_init_len_def check_len_def
  max_size_def

text \<open>The loops unfold on numerals as they do on \<open>Suc\<close>.\<close>

lemma destroy_n_numeral [simp]:
  "destroy_n T first (numeral k) w =
     destroy_n T (first + 1) (pred_numeral k) (destroy_at T first w)"
  by (simp add: numeral_eq_Suc)

lemma uninitialized_loop_numeral [simp]:
  "uninitialized_loop T src result i (numeral k) w =
     (case construct T (result + i) (src i) w of
        (Inl e, w1) \<Rightarrow> (Inl e, destroy T result (result + i) w1)
      | (Inr _, w1) \<Rightarrow> uninitialized_loop T src result (i + 1) (pred_numeral k) w1)"
  by (simp add: numeral_eq_Suc)

lemma copy_n_numeral [simp]:
  "copy_n T first (numeral k) d w =
     andthen (assign_elem T d (Copy_of first))
       (\<lambda>_. copy_n T (first + 1) (pred_numeral k) (d + 1)) w"
  by (simp add: numeral_eq_Suc)

lemma unrealloc_insert_loop_numeral [simp]:
  "unrealloc_insert_loop T it (numeral k) w =
     andthen (assign_elem T it (Copy_of (it - 1)))
       (\<lambda>_. unrealloc_insert_loop T (it - 1) (pred_numeral k)) w"
  by (simp add: numeral_eq_Suc)

lemma equal_n_numeral [simp]:
  "equal_n T first1 (numeral k) first2 w =
     andthen (read first1) (\<lambda>x. andthen (read first2) (\<lambda>y.
       if eq T x y then equal_n T (first1 + 1) (pred_numeral k) (first2 + 1)
       else ret False)) w"
  by (simp add: numeral_eq_Suc)

text \<open>The sample states are reached from \<open>fresh\<close> by public calls.\<close>

lemma one_of_two_reached:
  "snd (emplace_back int_like 0 (Emplace 7) (snd (reserve int_like 0 2 fresh))) = one_of_two"
  by (simp add: one_of_two_def fresh_def int_like_def reserve_def emplace_back_def prims)

lemma one_of_one_reached:
  "snd (emplace_back int_like 0 (Emplace 7) fresh) = one_of_one"
  by (simp add: one_of_one_def fresh_def int_like_def emplace_back_def realloc_insert_def prims)

lemma two_of_two_reached:
  "snd (emplace_back int_like 0 (Emplace 2)
     (snd (emplace_back int_like 0 (Emplace 1) (snd (reserve int_like 0 2 fresh))))) =
   two_of_two"
  by (simp add: two_of_two_def fresh_def int_like_def reserve_def emplace_back_def prims)

lemma three_of_four_reached:
  "snd (emplace_back int_like 0 (Emplace 3)
     (snd (emplace_back int_like 0 (Emplace 2)
       (snd (emplace_back int_like 0 (Emplace 1) (snd (reserve int_like 0 4 fresh))))))) =
   three_of_four"
  by (simp add: three_of_four_def fresh_def int_like_def reserve_def emplace_back_def prims)

lemma two_strings_reached:
  "snd (emplace_back string_like 0 (Emplace ''b'')
     (snd (emplace_back string_like 0 (Emplace ''a'')
       (snd (reserve string_like 0 2 (fresh\<lparr>cells := (\<lambda>_. None)(8 \<mapsto> ''c'')\<rparr>)))))) =
   two_strings"
  by (simp add: two_strings_def fresh_def string_like_def reserve_def emplace_back_def prims)

lemma three_vectors_reached:
  "snd (emplace_back int_like 2 (Emplace 3) (snd (emplace_back int_like 2 (Emplace 1)
     (snd (reserve int_like 2 2
     (snd (emplace_back int_like 1 (Emplace 2) (snd (emplace_back int_like 1 (Emplace 1)
     (snd (reserve int_like 1 2
     (snd (emplace_back int_like 0 (Emplace 2) (snd (emplace_back int_like 0 (Emplace 1)
     (snd (reserve int_like 0 2 fresh))))))))))))))))) = three_vectors"
  by (simp add: three_vectors_def fresh_def int_like_def reserve_def emplace_back_def prims)

section \<open>Closed forms of the library loops\<close>

lemma live_iff:
  "live w this \<longleftrightarrow>
     (\<forall>p. start (objs w this) \<le> p \<and> p < finish (objs w this) \<longrightarrow> cells w p \<noteq> None)"
  by (auto simp: live_def list_all_iff)

lemma cells_update_cong: "f = g \<Longrightarrow> w\<lparr>cells := f\<rparr> = w\<lparr>cells := g\<rparr>"
  by simp

lemma cells_update_id: "f = cells w \<Longrightarrow> w = w\<lparr>cells := f\<rparr>"
  by simp


lemma destroy_n_eq:
  "destroy_n T first n w =
     (if trivially_destructible T then w
      else w\<lparr>cells := (\<lambda>a. if first \<le> a \<and> a < first + n then None else cells w a)\<rparr>)"
proof (induction n arbitrary: first w)
  case 0
  show ?case by (simp, intro impI, rule cells_update_id) (auto simp: fun_eq_iff)
next
  case (Suc n)
  show ?case
    by (simp add: Suc.IH destroy_at_def, intro impI, rule cells_update_cong)
      (auto simp: fun_eq_iff)
qed

lemma destroy_eq:
  "destroy T lo hi w =
     (if trivially_destructible T then w
      else w\<lparr>cells := (\<lambda>a. if lo \<le> a \<and> a < hi then None else cells w a)\<rparr>)"
  by (simp add: destroy_def destroy_n_eq, intro impI, rule cells_update_cong)
    (auto simp: fun_eq_iff)

text \<open>Assigning a constructed range onto itself, element by element, changes nothing.\<close>

lemma copy_n_self:
  "fuse w = None \<Longrightarrow> (\<forall>j<n. cells w (p + j) \<noteq> None) \<Longrightarrow>
   copy_n T p n p w = (Inr (p + n), w)"
proof (induction n arbitrary: p)
  case 0
  then show ?case by simp
next
  case (Suc n)
  from Suc.prems obtain x where x: "cells w p = Some x"
    by (metis add.right_neutral option.exhaust zero_less_Suc)
  have same: "w\<lparr>cells := (cells w)(p \<mapsto> x)\<rparr> = w"
    using x by (simp add: fun_upd_idem)
  have rest: "\<forall>j<n. cells w (p + 1 + j) \<noteq> None"
    using Suc.prems(2) by (metis Suc_less_eq add_Suc_right add_Suc_shift Suc_eq_plus1)
  show ?case
    using Suc.IH [OF Suc.prems(1) rest] x same Suc.prems(1)
    by (simp add: andthen_def read_def tick_def effect_def store_def)
qed



text \<open>\<^verbatim>\<open>std::equal\<close> on two constructed ranges compares them index by index.\<close>

lemma equal_n_constructed:
  "(\<forall>i<n. cells w (f1 + i) \<noteq> None \<and> cells w (f2 + i) \<noteq> None) \<Longrightarrow>
   equal_n T f1 n f2 w =
     (Inr (\<forall>i<n. eq T (the (cells w (f1 + i))) (the (cells w (f2 + i)))), w)"
proof (induction n arbitrary: f1 f2)
  case 0
  then show ?case by simp
next
  case (Suc n)
  from Suc.prems obtain x y where xy: "cells w f1 = Some x" "cells w f2 = Some y"
    by (metis add.right_neutral option.exhaust zero_less_Suc)
  have rest: "\<forall>i<n. cells w (f1 + 1 + i) \<noteq> None \<and> cells w (f2 + 1 + i) \<noteq> None"
    using Suc.prems by (metis Suc_less_eq add_Suc_right add_Suc_shift Suc_eq_plus1)
  have split: "(\<forall>i<Suc n. eq T (the (cells w (f1 + i))) (the (cells w (f2 + i)))) \<longleftrightarrow>
      eq T x y \<and> (\<forall>i<n. eq T (the (cells w (f1 + 1 + i))) (the (cells w (f2 + 1 + i))))"
    using xy by (simp add: All_less_Suc2)
  show ?case
    using Suc.IH [OF rest] xy split by (simp add: andthen_def read_def ret_def)
qed

section \<open>What a failed growth call leaves behind\<close>

text \<open>
  The reallocating paths have no handler of their own: an exception from a transfer
  leaves through the library algorithm that raised it, which destroys what that call
  had built, and nothing else is undone. The lemmas below follow a failure through the
  steps after the allocation.
\<close>

lemma kept_refl: "kept T c c"
  unfolding kept_def by (rule exI [of _ 0]) (cases c; simp)

lemma kept_trans: "kept T a b \<Longrightarrow> kept T b c \<Longrightarrow> kept T a c"
  unfolding kept_def
proof (elim exE)
  fix k l assume "b = map_option (moved_from T ^^ k) a" "c = map_option (moved_from T ^^ l) b"
  then have "c = map_option (moved_from T ^^ (l + k)) a"
    by (simp add: option.map_comp funpow_add)
  then show "\<exists>k. c = map_option (moved_from T ^^ k) a" ..
qed

lemma kept_moved: "kept T (Some x) (Some (moved_from T x))"
  unfolding kept_def by (rule exI [of _ 1]) simp

lemma kept_constructed: "kept T c c' \<Longrightarrow> c \<noteq> None \<Longrightarrow> c' \<noteq> None"
  by (auto simp: kept_def)

lemma reflp_kept: "reflp (kept T)"
  by (simp add: reflp_def kept_refl)

lemma transp_kept: "transp (kept T)"
  by (auto simp: transp_def intro: kept_trans)

lemma movable_kept: "movable T (kept T)"
  by (simp add: movable_def kept_moved)

lemma frame_refl: "reflp R \<Longrightarrow> frame R p w w"
  by (simp add: frame_def reflp_def)

lemma frame_trans: "transp R \<Longrightarrow> frame R p w w1 \<Longrightarrow> frame R p w1 w2 \<Longrightarrow> frame R p w w2"
  unfolding frame_def transp_def by (metis (full_types))

lemma construct_frame:
  assumes "reflp R" and "is_move arg \<longrightarrow> movable T R" and "p \<le> q"
    and "construct T q arg w = (r, w')"
  shows "frame R p w w'"
proof (cases arg)
  case (Copy_of src)
  with assms show ?thesis
    by (auto simp: andthen_def read_def tick_def effect_def store_def frame_def reflp_def
        split: option.splits nat.splits)
next
  case (Move_of src)
  with assms show ?thesis
    by (auto simp: andthen_def read_def tick_def effect_def store_def frame_def reflp_def
        movable_def is_move_def split: option.splits nat.splits)
next
  case (Emplace x)
  with assms show ?thesis
    by (auto simp: andthen_def read_def tick_def effect_def store_def frame_def reflp_def
        split: option.splits nat.splits)
next
  case Default_init
  with assms show ?thesis
    by (auto simp: andthen_def read_def tick_def effect_def store_def frame_def reflp_def
        split: option.splits nat.splits if_splits)
qed

lemma destroy_frame: "reflp R \<Longrightarrow> p \<le> lo \<Longrightarrow> frame R p w (destroy T lo hi w)"
  by (simp add: destroy_eq frame_def reflp_def)

lemma uninitialized_loop_frame:
  assumes "reflp R" and "transp R" and "\<forall>i. is_move (src i) \<longrightarrow> movable T R" and "p \<le> result"
  shows "uninitialized_loop T src result i n w = (r, w') \<Longrightarrow>
         frame R p w w' \<and> (\<forall>x. r = Inr x \<longrightarrow> x = result + i + n)"
proof (induction n arbitrary: i w)
  case 0
  then show ?case using assms(1) by (auto simp: frame_refl)
next
  case (Suc n)
  obtain r1 w1 where step: "construct T (result + i) (src i) w = (r1, w1)"
    by (cases "construct T (result + i) (src i) w")
  have f1: "frame R p w w1"
    using construct_frame [OF assms(1) _ _ step] assms(3,4) by simp
  show ?case
  proof (cases r1)
    case (Inl e)
    with Suc.prems step have "r = Inl e" "w' = destroy T result (result + i) w1" by simp_all
    with f1 destroy_frame [OF assms(1,4)] assms(2) show ?thesis
      by (auto intro: frame_trans)
  next
    case (Inr u)
    with Suc.prems step have "uninitialized_loop T src result (i + 1) n w1 = (r, w')" by simp
    from Suc.IH [OF this] f1 assms(2) show ?thesis
      by (auto intro: frame_trans)
  qed
qed


lemma keeps_construct:
  "reflp R \<Longrightarrow> is_move arg \<longrightarrow> movable T R \<Longrightarrow> p \<le> q \<Longrightarrow>
   keeps R p (construct T q arg) (\<lambda>_. True)"
  unfolding keeps_def by (blast intro: construct_frame)

lemma keeps_uninitialized_move:
  "reflp R \<Longrightarrow> transp R \<Longrightarrow> movable T R \<Longrightarrow> p \<le> result \<Longrightarrow>
   keeps R p (uninitialized_move T first lastp result) (\<lambda>x. p \<le> x)"
  unfolding keeps_def uninitialized_move_def
  using uninitialized_loop_frame [of R "\<lambda>i. Move_of (first + i)" T p result]
  by fastforce

lemma keeps_uninitialized_copy:
  "reflp R \<Longrightarrow> transp R \<Longrightarrow> p \<le> result \<Longrightarrow>
   keeps R p (uninitialized_copy T first lastp result) (\<lambda>x. p \<le> x)"
  unfolding keeps_def uninitialized_copy_def
  using uninitialized_loop_frame [of R "\<lambda>i. Copy_of (first + i)" T p result]
  by (fastforce simp: is_move_def)

lemma keeps_uninitialized_fill_n:
  "reflp R \<Longrightarrow> transp R \<Longrightarrow> p \<le> first \<Longrightarrow>
   keeps R p (uninitialized_fill_n T first n val) (\<lambda>x. p \<le> x)"
  unfolding keeps_def uninitialized_fill_n_def
  using uninitialized_loop_frame [of R "\<lambda>i. Copy_of val" T p first]
  by (fastforce simp: is_move_def)

lemma keeps_uninitialized_default_construct_n:
  "reflp R \<Longrightarrow> transp R \<Longrightarrow> p \<le> first \<Longrightarrow>
   keeps R p (uninitialized_default_construct_n T first n) (\<lambda>x. p \<le> x)"
  unfolding keeps_def uninitialized_default_construct_n_def
  using uninitialized_loop_frame [of R "\<lambda>i. Default_init" T p first]
  by (fastforce simp: is_move_def)

lemma keeps_on_failure_andthen:
  assumes "transp R" and "keeps R p m Q" and "\<And>x. Q x \<Longrightarrow> keeps_on_failure R p (f x)"
  shows "keeps_on_failure R p (andthen m f)"
  unfolding keeps_on_failure_def
proof (intro allI impI)
  fix w w' assume run: "andthen m f w = (Inl Elem_throw, w')"
  obtain r1 w1 where m: "m w = (r1, w1)" by (cases "m w")
  with assms(2) have f1: "frame R p w w1" and q: "\<forall>x. r1 = Inr x \<longrightarrow> Q x"
    by (auto simp: keeps_def)
  show "frame R p w w'"
  proof (cases r1)
    case (Inl e1)
    with run m f1 show ?thesis by (simp add: andthen_def)
  next
    case (Inr x)
    with run m have "f x w1 = (Inl Elem_throw, w')" by (simp add: andthen_def)
    with assms(3) q Inr have "frame R p w1 w'" by (auto simp: keeps_on_failure_def)
    with f1 assms(1) show ?thesis by (blast intro: frame_trans)
  qed
qed

lemma keeps_on_failure_andthen_unit:
  fixes m :: "('a, unit) prog"
  assumes "transp R" and "keeps R p m (\<lambda>_. True)" and "\<And>x. keeps_on_failure R p (f x)"
  shows "keeps_on_failure R p (andthen m f)"
  using assms by (intro keeps_on_failure_andthen [where Q = "\<lambda>_. True"]) simp_all

lemma keeps_on_failure_andthen_ptr:
  fixes m :: "('a, nat) prog"
  assumes "transp R" and "keeps R p m (\<lambda>x. p \<le> x)"
    and "\<And>x. p \<le> x \<Longrightarrow> keeps_on_failure R p (f x)"
  shows "keeps_on_failure R p (andthen m f)"
  using assms by (intro keeps_on_failure_andthen [where Q = "\<lambda>x. p \<le> x"]) simp_all

text \<open>
  Destroying the old elements, releasing the old block and installing the new pointers
  never ends in an exception of the element type.
\<close>

lemma keeps_on_failure_release:
  "keeps_on_failure R p
     (andthen (effect g) (\<lambda>_. andthen (\<lambda>w1. deallocate (a w1) (h w1) w1) (\<lambda>_. effect k)))"
  by (auto simp: keeps_on_failure_def effect_def andthen_def deallocate_def Tr_deallocate_def
      ret_def split: if_splits)

text \<open>The allocator trace and the vectors after a step that obtained storage and failed.\<close>

lemma allocate_then_failed:
  assumes run: "andthen (allocate cap) body w = (Inl Elem_throw, w')"
    and changed: "trace w' \<noteq> trace w"
    and body: "\<And>ns. keeps_on_failure R ns (body ns)"
  shows "leaked R w w'"
proof (cases "cap = 0")
  case True
  with run have "body 0 w = (Inl Elem_throw, w')"
    by (simp add: allocate_def andthen_def ret_def)
  with body [of 0] have "frame R 0 w w'" by (simp add: keeps_on_failure_def)
  with changed show ?thesis by (simp add: frame_def leaked_def)
next
  case False
  show ?thesis
  proof (cases "fuse w = Some 0")
    case True
    with run False have "w' = w\<lparr>fuse := None\<rparr>"
      by (simp add: allocate_def Tr_allocate_def andthen_def tick_def)
    with changed show ?thesis by simp
  next
    case nofault: False
    define w1 where "w1 = (snd (tick Bad_alloc w))
      \<lparr>brk := brk w + cap, trace := trace w @ [Allocate (brk w) cap]\<rparr>"
    have alloc: "allocate cap w = (Inr (brk w), w1)"
      using False nofault
      by (auto simp: w1_def allocate_def Tr_allocate_def andthen_def tick_def
          split: option.splits nat.splits)
    have w1: "objs w1 = objs w" "cells w1 = cells w" "brk w1 = brk w + cap"
      "trace w1 = trace w @ [Allocate (brk w) cap]"
      by (auto simp: w1_def tick_def split: option.splits nat.splits)
    from run alloc have "body (brk w) w1 = (Inl Elem_throw, w')" by (simp add: andthen_def)
    with body [of "brk w"] have "frame R (brk w) w1 w'" by (simp add: keeps_on_failure_def)
    with w1 False show ?thesis by (simp add: frame_def leaked_def)
  qed
qed

lemma quietD: "quiet m \<Longrightarrow> m w = (r, w') \<Longrightarrow> trace w' = trace w"
  by (auto simp: quiet_def)

lemma quiet_andthen: "quiet m \<Longrightarrow> (\<And>x. quiet (f x)) \<Longrightarrow> quiet (andthen m f)"
  unfolding quiet_def andthen_def by (fastforce split: prod.splits sum.splits)

lemma quiet_ret: "quiet (ret x)"
  by (simp add: quiet_def ret_def)

lemma quiet_effect: "(\<And>w. trace (g w) = trace w) \<Longrightarrow> quiet (effect g)"
  by (auto simp: quiet_def effect_def)

lemma quiet_read: "quiet (read p)"
  by (auto simp: quiet_def read_def split: option.splits)

lemma quiet_tick: "quiet (tick e)"
  by (auto simp: quiet_def tick_def split: option.splits nat.splits)

lemma trace_store: "trace (store p x w) = trace w"
  by (simp add: store_def)

lemma trace_destroy: "trace (destroy T lo hi w) = trace w"
  by (simp add: destroy_eq)

lemma trace_set_finish: "trace (set_finish this p w) = trace w"
  by (simp add: set_finish_def)

lemma quiet_construct: "quiet (construct T p arg)"
  by (cases arg)
    (auto intro!: quiet_andthen quiet_read quiet_tick quiet_effect simp: trace_store
      split: option.splits)

lemma quiet_assign_elem: "quiet (assign_elem T p arg)"
  by (cases arg)
    (auto intro!: quiet_andthen quiet_read quiet_tick quiet_effect simp: trace_store)

lemma quiet_uninitialized_loop: "quiet (uninitialized_loop T src result i n)"
  unfolding quiet_def
proof (intro allI impI)
  fix w r w' assume "uninitialized_loop T src result i n w = (r, w')"
  then show "trace w' = trace w"
  proof (induction n arbitrary: i w)
    case 0
    then show ?case by simp
  next
    case (Suc n)
    obtain r1 w1 where step: "construct T (result + i) (src i) w = (r1, w1)"
      by (cases "construct T (result + i) (src i) w")
    then have t1: "trace w1 = trace w" by (rule quietD [OF quiet_construct])
    show ?case
    proof (cases r1)
      case (Inl e)
      with Suc.prems step t1 show ?thesis by (auto simp: trace_destroy)
    next
      case (Inr u)
      with Suc.prems step have "uninitialized_loop T src result (i + 1) n w1 = (r, w')" by simp
      from Suc.IH [OF this] t1 show ?thesis by simp
    qed
  qed
qed

lemma quiet_copy_n: "quiet (copy_n T first n d)"
proof (induction n arbitrary: first d)
  case 0
  show ?case by (simp add: quiet_def)
next
  case (Suc n)
  have unfold: "copy_n T first (Suc n) d =
      andthen (assign_elem T d (Copy_of first)) (\<lambda>_. copy_n T (first + 1) n (d + 1))"
    by (rule ext) simp
  show ?case
    unfolding unfold by (intro quiet_andthen quiet_assign_elem Suc.IH)
qed

lemma quiet_move_backward_n: "quiet (move_backward_n T lastp n d_last)"
proof (induction n arbitrary: lastp d_last)
  case 0
  show ?case by (simp add: quiet_def)
next
  case (Suc n)
  have unfold: "move_backward_n T lastp (Suc n) d_last =
      andthen (assign_elem T (d_last - 1) (Move_of (lastp - 1)))
        (\<lambda>_. move_backward_n T (lastp - 1) n (d_last - 1))"
    by (rule ext) simp
  show ?case
    unfolding unfold by (intro quiet_andthen quiet_assign_elem Suc.IH)
qed

lemma quiet_fill_n: "quiet (fill_n T first n val)"
proof (induction n arbitrary: first)
  case 0
  show ?case by (simp add: quiet_def)
next
  case (Suc n)
  have unfold: "fill_n T first (Suc n) val =
      andthen (assign_elem T first (Copy_of val)) (\<lambda>_. fill_n T (first + 1) n val)"
    by (rule ext) simp
  show ?case
    unfolding unfold by (intro quiet_andthen quiet_assign_elem Suc.IH)
qed

lemma quiet_unrealloc_insert_loop: "quiet (unrealloc_insert_loop T it n)"
proof (induction n arbitrary: it)
  case 0
  show ?case by (simp add: quiet_def)
next
  case (Suc n)
  have unfold: "unrealloc_insert_loop T it (Suc n) =
      andthen (assign_elem T it (Copy_of (it - 1))) (\<lambda>_. unrealloc_insert_loop T (it - 1) n)"
    by (rule ext) simp
  show ?case
    unfolding unfold by (intro quiet_andthen quiet_assign_elem Suc.IH)
qed

lemma quiet_andthenD:
  "andthen m f w = (r, w') \<Longrightarrow> quiet m \<Longrightarrow> (\<And>x. quiet (f x)) \<Longrightarrow> trace w' = trace w"
  using quiet_andthen quietD by blast

lemmas quiet_rules = quiet_andthen quiet_ret quiet_effect quiet_construct quiet_assign_elem
  quiet_uninitialized_loop quiet_copy_n quiet_move_backward_n quiet_fill_n
  quiet_unrealloc_insert_loop quiet_read quiet_tick

lemma unrealloc_insert_quiet:
  "unrealloc_insert T this position args w = (r, w') \<Longrightarrow> trace w' = trace w"
  unfolding unrealloc_insert_def
  by (simp only: split: if_splits; erule quiet_andthenD)
    (intro quiet_rules; simp add: trace_set_finish destroy_at_def)+


lemma andthen_check_len:
  "andthen (check_len T this c) f w =
     (case check_len T this c w of (Inl e, _) \<Rightarrow> (Inl e, w) | (Inr cap, _) \<Rightarrow> f cap w)"
  by (simp add: andthen_def check_len_def throw_def ret_def Let_def)

lemmas keeps_rules = keeps_on_failure_release keeps_on_failure_andthen_unit
  keeps_on_failure_andthen_ptr keeps_construct
  keeps_uninitialized_move keeps_uninitialized_copy keeps_uninitialized_fill_n
  keeps_uninitialized_default_construct_n reflp_kept transp_kept movable_kept

lemma realloc_insert_failed:
  "realloc_insert T this position args w = (Inl Elem_throw, w') \<Longrightarrow> trace w' \<noteq> trace w \<Longrightarrow>
   leaked (kept T) w w'"
  unfolding realloc_insert_def
  apply (simp only: andthen_check_len Let_def split: prod.splits sum.splits)
  subgoal by simp
  subgoal by (erule allocate_then_failed, assumption) (intro keeps_rules impI; simp)
  done


lemma quiet_uninitialized_move: "quiet (\<lambda>w. uninitialized_move T first lastp (g w) w)"
  unfolding uninitialized_move_def using quiet_uninitialized_loop
  by (fastforce simp: quiet_def)

lemma quiet_uninitialized_copy: "quiet (\<lambda>w. uninitialized_copy T first lastp (g w) w)"
  unfolding uninitialized_copy_def using quiet_uninitialized_loop
  by (fastforce simp: quiet_def)

lemma quiet_uninitialized_fill_n: "quiet (uninitialized_fill_n T first n val)"
  unfolding uninitialized_fill_n_def by (rule quiet_uninitialized_loop)

lemma quiet_uninitialized_default_construct_n:
  "quiet (uninitialized_default_construct_n T first n)"
  unfolding uninitialized_default_construct_n_def by (rule quiet_uninitialized_loop)

lemma quiet_move_backward: "quiet (move_backward T first lastp d_last)"
  unfolding move_backward_def by (rule quiet_move_backward_n)

lemma quiet_copy: "quiet (copy T first lastp d)"
  unfolding copy_def by (rule quiet_copy_n)

lemma quiet_fill: "quiet (fill T first lastp val)"
  unfolding fill_def by (intro quiet_andthen quiet_fill_n quiet_ret)

lemmas quiet_more = quiet_rules quiet_uninitialized_move quiet_uninitialized_copy
  quiet_uninitialized_fill_n quiet_uninitialized_default_construct_n quiet_move_backward
  quiet_copy quiet_fill

lemma quiet_andthen_contra:
  "andthen m f w = (r, w') \<Longrightarrow> trace w' \<noteq> trace w \<Longrightarrow> quiet m \<Longrightarrow> (\<And>x. quiet (f x)) \<Longrightarrow> P"
  using quiet_andthenD by blast

lemma fill_insert_failed:
  "fill_insert T this position count val w = (Inl Elem_throw, w') \<Longrightarrow> trace w' \<noteq> trace w \<Longrightarrow>
   leaked (kept T) w w'"
  unfolding fill_insert_def
  apply (simp only: andthen_check_len Let_def split: if_splits prod.splits sum.splits)
  subgoal
    by (erule quiet_andthen_contra, assumption) (intro quiet_more; simp add: trace_set_finish)+
  subgoal
    by (erule quiet_andthen_contra, assumption) (intro quiet_more; simp add: trace_set_finish)+
  subgoal by simp
  subgoal by (erule allocate_then_failed, assumption) (intro keeps_rules impI; simp)
  subgoal by simp
  done

lemma range_insert_failed:
  "range_insert T this pos first lastp w = (Inl Elem_throw, w') \<Longrightarrow> trace w' \<noteq> trace w \<Longrightarrow>
   leaked (kept T) w w'"
  unfolding range_insert_def
  apply (simp only: andthen_check_len Let_def split: if_splits prod.splits sum.splits)
  subgoal
    by (erule quiet_andthen_contra, assumption) (intro quiet_more; simp add: trace_set_finish)+
  subgoal
    by (erule quiet_andthen_contra, assumption) (intro quiet_more; simp add: trace_set_finish)+
  subgoal by simp
  subgoal by (erule allocate_then_failed, assumption) (intro keeps_rules impI; simp)
  subgoal by simp
  done

lemma default_append_failed:
  "default_append T this n w = (Inl Elem_throw, w') \<Longrightarrow> trace w' \<noteq> trace w \<Longrightarrow>
   leaked (kept T) w w'"
  unfolding default_append_def
  apply (simp only: andthen_check_len Let_def split: if_splits prod.splits sum.splits)
  subgoal
    by (erule quiet_andthen_contra, assumption) (intro quiet_more; simp add: trace_set_finish)+
  subgoal by simp
  subgoal by (erule allocate_then_failed, assumption) (intro keeps_rules impI; simp)
  subgoal by simp
  done


lemma andthen_assoc: "andthen (andthen m g) h = andthen m (\<lambda>x. andthen (g x) h)"
  by (rule ext) (simp add: andthen_def split: prod.splits sum.splits)

lemma ret_andthen: "andthen (ret x) f = f x"
  by (rule ext) (simp add: andthen_def ret_def)

lemma reflp_eq: "reflp ((=) :: 'a option \<Rightarrow> 'a option \<Rightarrow> bool)"
  by (simp add: reflp_def)

lemma transp_eq: "transp ((=) :: 'a option \<Rightarrow> 'a option \<Rightarrow> bool)"
  by (simp add: transp_def)

lemma reserve_failed:
  "reserve T this new_cap w = (Inl Elem_throw, w') \<Longrightarrow> trace w' \<noteq> trace w \<Longrightarrow> leaked (=) w w'"
  unfolding reserve_def allocate_and_copy_def
  apply (simp only: andthen_assoc ret_andthen Let_def throw_def split: if_splits)
  subgoal by simp
  subgoal
    by (erule allocate_then_failed, assumption)
      (intro keeps_on_failure_release keeps_on_failure_andthen_ptr keeps_uninitialized_copy
        reflp_eq transp_eq; simp)
  subgoal by simp
  done

lemma andthen_total_tail:
  "andthen m f w = (Inl e, w') \<Longrightarrow> (\<And>x w1. \<exists>y. f x w1 = (Inr y, w1)) \<Longrightarrow> m w = (Inl e, w')"
  unfolding andthen_def
  by (cases "m w"; cases "fst (m w)") (auto, metis Pair_inject sum.distinct(1))

lemma emplace_back_failed:
  "emplace_back T this args w = (Inl Elem_throw, w') \<Longrightarrow> trace w' \<noteq> trace w \<Longrightarrow>
   leaked (kept T) w w'"
  unfolding emplace_back_def
  apply (simp only: split: if_splits)
  subgoal
    by (erule quiet_andthen_contra, assumption) (intro quiet_more; simp add: trace_set_finish)+
  subgoal by (erule realloc_insert_failed)
  done

lemma push_back_failed:
  "push_back T this val w = (Inl Elem_throw, w') \<Longrightarrow> trace w' \<noteq> trace w \<Longrightarrow> leaked (kept T) w w'"
  unfolding push_back_def
  apply (simp only: split: if_splits)
  subgoal
    by (erule quiet_andthen_contra, assumption) (intro quiet_more; simp add: trace_set_finish)+
  subgoal by (erule realloc_insert_failed)
  done

lemma emplace_failed:
  "emplace T this position args w = (Inl Elem_throw, w') \<Longrightarrow> trace w' \<noteq> trace w \<Longrightarrow>
   leaked (kept T) w w'"
  unfolding emplace_def
  apply (simp only: split: if_splits)
  subgoal by (drule unrealloc_insert_quiet) simp
  subgoal by (erule realloc_insert_failed)
  done

lemma insert_copy_failed:
  assumes "insert_copy T this pos val w = (Inl Elem_throw, w')" and "trace w' \<noteq> trace w"
  shows "leaked (kept T) w w'"
proof -
  have "emplace T this pos (Copy_of val) w = (Inl Elem_throw, w')"
    using assms(1) unfolding insert_copy_def emplace_def Let_def
    by (auto dest!: andthen_total_tail split: if_splits)
  then show ?thesis using assms(2) by (rule emplace_failed)
qed

lemma insert_move_failed:
  assumes "insert_move T this pos val w = (Inl Elem_throw, w')" and "trace w' \<noteq> trace w"
  shows "leaked (kept T) w w'"
proof -
  have "emplace T this pos (Move_of val) w = (Inl Elem_throw, w')"
    using assms(1) unfolding insert_move_def emplace_def Let_def
    by (auto dest!: andthen_total_tail split: if_splits)
  then show ?thesis using assms(2) by (rule emplace_failed)
qed

lemma insert_fill_failed:
  assumes "insert_fill T this pos count val w = (Inl Elem_throw, w')" and "trace w' \<noteq> trace w"
  shows "leaked (kept T) w w'"
proof -
  have "fill_insert T this (start (objs w this) + (pos - start (objs w this))) count val w =
      (Inl Elem_throw, w')"
    using assms(1) unfolding insert_fill_def Let_def
    by (auto dest!: andthen_total_tail)
  then show ?thesis using assms(2) by (rule fill_insert_failed)
qed

lemma insert_range_failed:
  assumes "insert_range T this pos first lastp w = (Inl Elem_throw, w')" and "trace w' \<noteq> trace w"
  shows "leaked (kept T) w w'"
proof -
  have "range_insert T this (start (objs w this) + (pos - start (objs w this))) first lastp w =
      (Inl Elem_throw, w')"
    using assms(1) unfolding insert_range_def Let_def
    by (auto dest!: andthen_total_tail)
  then show ?thesis using assms(2) by (rule range_insert_failed)
qed

lemma resize_failed:
  "resize T this new_size w = (Inl Elem_throw, w') \<Longrightarrow> trace w' \<noteq> trace w \<Longrightarrow> leaked (kept T) w w'"
  unfolding resize_def Let_def
  by (auto split: if_splits elim: default_append_failed)

lemma resize_fill_failed:
  assumes "resize_fill T this new_size val w = (Inl Elem_throw, w')" and "trace w' \<noteq> trace w"
  shows "leaked (kept T) w w'"
proof -
  have "insert_fill T this (finish (objs w this)) (new_size - size_v w this) val w = (Inl Elem_throw, w')"
    using assms(1) unfolding resize_fill_def
    by (auto dest!: andthen_total_tail split: if_splits simp: ret_def)
  then show ?thesis using assms(2) by (rule insert_fill_failed)
qed

lemma leaked_eq_kept: "leaked (=) w w' \<Longrightarrow> leaked (kept T) w w'"
  by (auto simp: leaked_def kept_refl)

lemma growth_call_failed:
  assumes "growth_call T this call w = (Inl Elem_throw, w')" and "trace w' \<noteq> trace w"
  shows "leaked (kept T) w w'"
proof (cases call)
  case (Push_back x)
  with assms show ?thesis by (auto elim: push_back_failed)
next
  case (Push_back_move x)
  with assms show ?thesis by (auto simp: push_back_move_def elim: emplace_back_failed)
next
  case (Emplace_back x)
  with assms show ?thesis by (auto elim: emplace_back_failed)
next
  case (Insert p x)
  with assms show ?thesis
    by (auto dest!: andthen_total_tail simp: ret_def elim: insert_copy_failed)
next
  case (Insert_move p x)
  with assms show ?thesis
    by (auto dest!: andthen_total_tail simp: ret_def elim: insert_move_failed)
next
  case (Emplace_at p x)
  with assms show ?thesis by (auto elim: emplace_failed)
next
  case (Insert_fill p c x)
  with assms show ?thesis
    by (auto dest!: andthen_total_tail simp: ret_def elim: insert_fill_failed)
next
  case (Insert_range p f l)
  with assms show ?thesis
    by (auto dest!: andthen_total_tail simp: ret_def elim: insert_range_failed)
next
  case (Resize n)
  with assms show ?thesis by (auto elim: resize_failed)
next
  case (Resize_fill n x)
  with assms show ?thesis by (auto elim: resize_fill_failed)
next
  case (Reserve n)
  with assms show ?thesis by (auto intro: leaked_eq_kept elim: reserve_failed)
qed


section \<open>The growth rule, the aliased insert and trivial elements\<close>

lemma max_size_bound: "max_size T < 2 ^ 63"
proof -
  have "max_size T \<le> (2 ^ 63 - 1) div sizeof T" by (simp add: max_size_def)
  also have "\<dots> \<le> 2 ^ 63 - 1" by (rule div_le_dividend)
  finally show ?thesis by simp
qed

text \<open>
  As long as \<^verbatim>\<open>count + size()\<close> does not wrap, \<^verbatim>\<open>check_len\<close> is the growth rule:
  a length error when the request exceeds \<open>max_size\<close>, and otherwise the larger of
  \<open>count + size\<close> and \<open>2 * size\<close>, clamped to \<open>max_size\<close>. The state is not touched.
\<close>

lemma check_len_without_wrap:
  assumes "size_v w this \<le> max_size T" and "count + size_v w this < 2 ^ 64"
  shows "check_len T this count w =
           (if max_size T < count + size_v w this then Inl Length_error
            else Inr (min (max (count + size_v w this) (2 * size_v w this)) (max_size T)), w)"
proof -
  let ?s = "size_v w this"
  have s: "?s < 2 ^ 63" using assms(1) max_size_bound [of T] by simp
  show ?thesis
  proof (cases "max_size T < count + ?s")
    case True
    with assms(2) show ?thesis by (simp add: check_len_def throw_def)
  next
    case False
    then have c: "count < 2 ^ 63" using max_size_bound [of T] by simp
    have len: "?s + max count ?s < 2 ^ 64" using s c by (simp add: max_def)
    have eq: "?s + max count ?s = max (count + ?s) (2 * ?s)" by (simp add: max_def)
    from False assms(2) len show ?thesis
      by (auto simp: check_len_def Let_def ret_def eq min_def max_def)
  qed
qed

text \<open>
  \<^verbatim>\<open>c.insert(c.begin(), c.back())\<close> on the full vector \<open>[1, 2]\<close> reallocates, and the
  reallocating path builds the new element before it moves the old ones: \<open>[2, 1, 2]\<close>.
\<close>

lemma insert_back_at_begin_reallocating:
  "fst (insert_copy int_like 0 16 17 two_of_two) = Inr 18 \<and>
   elements (snd (insert_copy int_like 0 16 17 two_of_two)) 0 = [Some 2, Some 1, Some 2] \<and>
   trace (snd (insert_copy int_like 0 16 17 two_of_two)) =
     [Allocate 16 2, Allocate 18 4, Deallocate 16 2]"
  by (simp add: two_of_two_def int_like_def insert_copy_def realloc_insert_def prims)

text \<open>
  \<^verbatim>\<open>v.resize(0); v.resize(1)\<close> on a vector of one \<^verbatim>\<open>int\<close> with value 7: destroying a
  trivially destructible element and default-initialising a trivial one write nothing,
  so the slot holds 7 again.
\<close>

lemma resize_trivial_keeps_storage:
  "elements (snd (resize int_like 0 0 one_of_two)) 0 = [] \<and>
   elements (snd (resize int_like 0 1 (snd (resize int_like 0 0 one_of_two)))) 0 = [Some 7]"
  by (simp add: one_of_two_def int_like_def resize_def default_append_def prims)

section \<open>Calls that change nothing\<close>

text \<open>
  Claim C9. A fill insert of zero elements and a range insert of an empty range return
  at once: the state is the same in every component (no allocator call, no cell written,
  the three pointers as before), and the iterator returned is \<open>begin() + (p - begin())\<close>.
\<close>

theorem insert_nothing_is_noop:
  "insert_fill T this p 0 x w = (Inr (start (objs w this) + (p - start (objs w this))), w) \<and>
   insert_range T this p first first w =
     (Inr (start (objs w this) + (p - start (objs w this))), w)"
  by (simp add: insert_fill_def insert_range_def fill_insert_def range_insert_def andthen_def)

text \<open>
  Claim C6. Copy assignment and move assignment of a vector to itself return with the
  state unchanged in every component: the pointers, the cells and the allocator trace,
  so the buffer is not released, let alone twice.
\<close>

theorem self_assignment_is_noop:
  "copy_assign T c c w = (Inr (), w) \<and> move_assign T c c w = (Inr (), w)"
  by (simp add: copy_assign_def move_assign_def)

section \<open>Where the code leaves the specification\<close>

text \<open>
  Claim C5. The destructor releases the buffer with \<^verbatim>\<open>size()\<close> as the count, where
  every other path passes \<^verbatim>\<open>end_of_storage_ - start_\<close>. On a vector of size 1 and
  capacity 2 the allocator sees the block of 2 it handed out come back as a block of 1,
  which is outside its contract.
\<close>

theorem destructor_passes_size:
  "fst (destructor int_like 0 one_of_two) = Inl Undefined_behaviour \<and>
   trace (snd (destructor int_like 0 one_of_two)) = [Allocate 16 2, Deallocate 16 1]"
  by (simp add: one_of_two_def int_like_def destructor_def prims)

text \<open>
  Claim C4. \<^verbatim>\<open>shrink_to_fit\<close> passes \<^verbatim>\<open>finish_\<close> to \<^verbatim>\<open>deallocate\<close>. On a well-formed
  vector of size 1 and capacity 2 that owns its block, \<^verbatim>\<open>finish_\<close> points into the
  block: the allocator never handed that pointer out, the call is undefined, and the
  function does not get as far as a state with the capacity equal to the size.
\<close>

theorem shrink_to_fit_frees_inside_block:
  "valid_vector int_like one_of_two 0 \<and> owns_buffer one_of_two 0 \<and> heap_ok one_of_two \<and>
   size_v one_of_two 0 < capacity one_of_two 0 \<and>
   fst (shrink_to_fit 0 one_of_two) = Inl Undefined_behaviour \<and>
   trace (snd (shrink_to_fit 0 one_of_two)) = [Allocate 16 2, Deallocate 17 1]"
  by (simp add: one_of_two_def int_like_def shrink_to_fit_def valid_vector_def live_def
      owns_buffer_def heap_ok_def prims)

text \<open>When the capacity equals the size, \<^verbatim>\<open>shrink_to_fit\<close> returns with the state unchanged.\<close>

lemma shrink_to_fit_full_is_noop:
  "capacity w this = size_v w this \<Longrightarrow> shrink_to_fit this w = (Inr (), w)"
  by (simp add: shrink_to_fit_def)

text \<open>
  Claim C3. \<^verbatim>\<open>check_len\<close> tests \<^verbatim>\<open>max_size() < count + size()\<close> in \<^verbatim>\<open>size_type\<close>. For a
  vector of size 1 and \<^verbatim>\<open>count = SIZE_MAX\<close> the sum wraps to 0: the request exceeds
  \<open>max_size\<close>, and \<^verbatim>\<open>check_len\<close> returns \<open>max_size\<close> instead of throwing. So
  \<^verbatim>\<open>v.insert(v.end(), SIZE_MAX, x)\<close> reaches the allocator: where the allocation fails,
  the call ends in the allocator's error, not in the length error.
\<close>

theorem check_len_wraps:
  "max_size int_like < (2 ^ 64 - 1) + size_v one_of_one 0 \<and>
   check_len int_like 0 (2 ^ 64 - 1) one_of_one = (Inr (max_size int_like), one_of_one) \<and>
   fst (insert_fill int_like 0 17 (2 ^ 64 - 1) 16 (one_of_one\<lparr>fuse := Some 0\<rparr>)) =
     Inl Bad_alloc"
  by (simp add: one_of_one_def int_like_def insert_fill_def fill_insert_def prims)

text \<open>
  Claim C2. \<^verbatim>\<open>c.insert(c.begin(), c.back())\<close> on \<open>[1, 2, 3]\<close> with one spare slot takes
  the shifting path, which reads the argument after the shift has overwritten the slot
  it refers to: the result is \<open>[2, 1, 2, 3]\<close>, not \<open>[3, 1, 2, 3]\<close>.
\<close>

theorem insert_back_at_begin_shifted:
  "fst (insert_copy int_like 0 16 18 three_of_four) = Inr 16 \<and>
   elements (snd (insert_copy int_like 0 16 18 three_of_four)) 0 =
     [Some 2, Some 1, Some 2, Some 3]"
  by (simp add: three_of_four_def int_like_def insert_copy_def unrealloc_insert_def prims)


section \<open>Reserve, assign and comparison\<close>



text \<open>
  Claim C8. On a well-formed vector whose element assignment does not throw,
  \<^verbatim>\<open>v.assign(v.begin(), v.end())\<close> returns normally with the state unchanged: the same
  pointers, hence size and capacity, and the same cells, hence elements.
\<close>

theorem assign_own_range_is_noop:
  assumes "valid_vector T w this" and "fuse w = None"
  shows "assign_range T this (start (objs w this)) (finish (objs w this)) w = (Inr (), w)"
proof -
  have ord: "start (objs w this) \<le> finish (objs w this)"
    "finish (objs w this) \<le> end_of_storage (objs w this)"
    using assms(1) by (simp_all add: valid_vector_def)
  have "\<forall>j<finish (objs w this) - start (objs w this).
          cells w (start (objs w this) + j) \<noteq> None"
    using assms(1) by (auto simp: valid_vector_def live_iff)
  moreover have "\<not> end_of_storage (objs w this) - start (objs w this)
                     < finish (objs w this) - start (objs w this)"
    using ord by arith
  ultimately show ?thesis
    using copy_n_self [OF assms(2), of "finish (objs w this) - start (objs w this)"
        "start (objs w this)" T] ord
    by (simp add: assign_range_def range_assign_def capacity_def size_v_def copy_def
        andthen_def effect_def erase_at_end_def Let_def)
qed

theorem assign_own_range_is_noop_witness:
  "valid_vector int_like three_of_four 0 \<and> fuse three_of_four = None \<and>
   assign_range int_like 0 16 19 three_of_four = (Inr (), three_of_four)"
proof -
  have v: "valid_vector int_like three_of_four 0"
    by (simp add: valid_vector_def live_def three_of_four_def int_like_def capacity_def
        max_size_def)
  have f: "fuse three_of_four = None" by (simp add: three_of_four_def)
  have "start (objs three_of_four 0) = 16" "finish (objs three_of_four 0) = 19"
    by (simp_all add: three_of_four_def)
  then show ?thesis
    using v f assign_own_range_is_noop [OF v f] by simp
qed

text \<open>
  Claim C10. For two vectors whose live slots hold constructed elements, \<^verbatim>\<open>a == b\<close>
  returns true exactly when the sizes agree and the elements compare equal, with the
  element type's \<^verbatim>\<open>operator==\<close>, at every index below the size; \<^verbatim>\<open>a != b\<close> returns
  the negation. Neither changes the state.
\<close>

theorem equality_is_elementwise:
  assumes "live w a" and "live w b"
  shows "operator_eq T a b w =
           (Inr (size_v w a = size_v w b \<and>
                 (\<forall>i<size_v w a. eq T (the (cells w (start (objs w a) + i)))
                                      (the (cells w (start (objs w b) + i))))), w) \<and>
         operator_ne T a b w =
           (Inr (\<not> (size_v w a = size_v w b \<and>
                 (\<forall>i<size_v w a. eq T (the (cells w (start (objs w a) + i)))
                                      (the (cells w (start (objs w b) + i)))))), w)"
proof (cases "size_v w a = size_v w b")
  case False
  then show ?thesis by (simp add: operator_eq_def operator_ne_def andthen_def ret_def)
next
  case True
  have "\<forall>i<finish (objs w a) - start (objs w a).
          cells w (start (objs w a) + i) \<noteq> None \<and> cells w (start (objs w b) + i) \<noteq> None"
    using assms True by (auto simp: live_iff size_v_def)
  from equal_n_constructed [OF this, of T] True show ?thesis
    by (simp add: operator_eq_def operator_ne_def andthen_def ret_def size_v_def)
qed


theorem equality_is_elementwise_witness:
  "live three_vectors 0 \<and> live three_vectors 1 \<and> live three_vectors 2 \<and>
   operator_eq int_like 0 1 three_vectors = (Inr True, three_vectors) \<and>
   operator_ne int_like 0 1 three_vectors = (Inr False, three_vectors) \<and>
   operator_eq int_like 0 2 three_vectors = (Inr False, three_vectors) \<and>
   operator_ne int_like 0 2 three_vectors = (Inr True, three_vectors)"
proof -
  have l: "live three_vectors 0" "live three_vectors 1" "live three_vectors 2"
    by (simp_all add: live_def three_vectors_def)
  have two: "\<And>P. (\<forall>i<2::nat. P i) \<longleftrightarrow> P 0 \<and> P 1"
    by (auto simp: numeral_2_eq_2 All_less_Suc)
  show ?thesis
    using l equality_is_elementwise [OF l(1) l(2), of int_like]
      equality_is_elementwise [OF l(1) l(3), of int_like]
    by (simp add: two size_v_def three_vectors_def int_like_def)
qed


section \<open>Failure during reallocation\<close>

text \<open>
  Claim C1, as stated, fails. \<^verbatim>\<open>s.push_back(x)\<close> on the full vector \<open>["a", "b"]\<close>, where
  the move of the second string throws: the call leaves with the new block of 4 still
  allocated, the copy of \<open>x\<close> still constructed in it, and the first string moved from.
\<close>

theorem failed_push_back_counterexample:
  "fst (push_back string_like 0 8 (two_strings_fused 3)) = Inl Elem_throw \<and>
   trace (snd (push_back string_like 0 8 (two_strings_fused 3))) =
     [Allocate 16 2, Allocate 18 4] \<and>
   cells (snd (push_back string_like 0 8 (two_strings_fused 3))) 20 = Some ''c'' \<and>
   elements (two_strings_fused 3) 0 = [Some ''a'', Some ''b''] \<and>
   elements (snd (push_back string_like 0 8 (two_strings_fused 3))) 0 = [Some [], Some ''b'']"
  by (simp add: two_strings_fused_def two_strings_def string_like_def push_back_def
      realloc_insert_def prims)

text \<open>
  Claim C1, as the code has it. Take a well-formed vector and a growth call that has
  asked the allocator for storage and then failed with an exception of the element type.
  Then the vector's three pointers are what they were, so its size and capacity are
  unchanged, and every live slot still holds a constructed element: the one it held, or
  what moving from that one leaves; after \<^verbatim>\<open>reserve\<close>, which copies, the element sequence
  is unchanged. The new block is not released: the allocator trace has gained its
  allocation and no deallocation.
\<close>

theorem failed_growth_leaks_buffer:
  assumes "valid_vector T w this"
    and "growth_call T this call w = (Inl Elem_throw, w')"
    and "trace w' \<noteq> trace w"
  shows "objs w' this = objs w this \<and>
         size_v w' this = size_v w this \<and> capacity w' this = capacity w this \<and>
         (\<exists>n>0. trace w' = trace w @ [Allocate (brk w) n]) \<and>
         (\<forall>p. start (objs w this) \<le> p \<and> p < finish (objs w this) \<longrightarrow>
              kept T (cells w p) (cells w' p)) \<and>
         live w' this \<and>
         (\<forall>n. call = Reserve n \<longrightarrow> elements w' this = elements w this)"
proof -
  have below: "finish (objs w this) \<le> brk w" and l: "live w this"
    using assms(1) by (simp_all add: valid_vector_def)
  have lk: "leaked (kept T) w w'"
    using assms(2,3) by (rule growth_call_failed)
  then have same: "objs w' = objs w"
    and tr: "\<exists>n>0. trace w' = trace w @ [Allocate (brk w) n]"
    and cs: "\<forall>a<brk w. kept T (cells w a) (cells w' a)"
    by (auto simp: leaked_def)
  have old: "\<forall>p. start (objs w this) \<le> p \<and> p < finish (objs w this) \<longrightarrow>
              kept T (cells w p) (cells w' p)"
    using cs below by simp
  have "live w' this"
    unfolding live_iff
  proof (intro allI impI)
    fix p assume p: "start (objs w' this) \<le> p \<and> p < finish (objs w' this)"
    with same l have "cells w p \<noteq> None" by (simp add: live_iff)
    moreover from p same old have "kept T (cells w p) (cells w' p)" by simp
    ultimately show "cells w' p \<noteq> None" by (rule kept_constructed [rotated])
  qed
  moreover have "\<forall>n. call = Reserve n \<longrightarrow> elements w' this = elements w this"
  proof (intro allI impI)
    fix n assume "call = Reserve n"
    with assms(2,3) have "leaked (=) w w'" by (auto elim: reserve_failed)
    then have "\<forall>a<brk w. cells w' a = cells w a" by (simp add: leaked_def)
    with below same show "elements w' this = elements w this"
      by (simp add: elements_def)
  qed
  ultimately show ?thesis
    using same tr old by (simp add: size_v_def capacity_def)
qed

theorem failed_growth_leaks_buffer_witness:
  "valid_vector string_like (two_strings_fused 3) 0 \<and>
   growth_call string_like 0 (Push_back 8) (two_strings_fused 3) =
     (Inl Elem_throw, snd (growth_call string_like 0 (Push_back 8) (two_strings_fused 3))) \<and>
   trace (snd (growth_call string_like 0 (Push_back 8) (two_strings_fused 3))) \<noteq>
     trace (two_strings_fused 3) \<and>
   objs (snd (growth_call string_like 0 (Push_back 8) (two_strings_fused 3))) 0 =
     objs (two_strings_fused 3) 0 \<and>
   live (snd (growth_call string_like 0 (Push_back 8) (two_strings_fused 3))) 0 \<and>
   valid_vector string_like (two_strings_fused 2) 0 \<and>
   growth_call string_like 0 (Reserve 5) (two_strings_fused 2) =
     (Inl Elem_throw, snd (growth_call string_like 0 (Reserve 5) (two_strings_fused 2))) \<and>
   trace (snd (growth_call string_like 0 (Reserve 5) (two_strings_fused 2))) \<noteq>
     trace (two_strings_fused 2) \<and>
   elements (snd (growth_call string_like 0 (Reserve 5) (two_strings_fused 2))) 0 =
     elements (two_strings_fused 2) 0"
proof -
  let ?w = "two_strings_fused 3" and ?v = "two_strings_fused 2"
  let ?w' = "snd (growth_call string_like 0 (Push_back 8) ?w)"
  let ?v' = "snd (growth_call string_like 0 (Reserve 5) ?v)"
  have valid: "valid_vector string_like ?w 0" "valid_vector string_like ?v 0"
    by (simp_all add: valid_vector_def live_def two_strings_fused_def two_strings_def
        string_like_def capacity_def max_size_def)
  have "fst (growth_call string_like 0 (Push_back 8) ?w) = Inl Elem_throw"
    by (simp add: two_strings_fused_def two_strings_def string_like_def push_back_def
        realloc_insert_def prims)
  then have run: "growth_call string_like 0 (Push_back 8) ?w = (Inl Elem_throw, ?w')"
    by (metis prod.collapse)
  have changed: "trace ?w' \<noteq> trace ?w"
    by (simp add: two_strings_fused_def two_strings_def string_like_def push_back_def
        realloc_insert_def prims)
  have "fst (growth_call string_like 0 (Reserve 5) ?v) = Inl Elem_throw"
    by (simp add: two_strings_fused_def two_strings_def string_like_def reserve_def prims)
  then have run2: "growth_call string_like 0 (Reserve 5) ?v = (Inl Elem_throw, ?v')"
    by (metis prod.collapse)
  have changed2: "trace ?v' \<noteq> trace ?v"
    by (simp add: two_strings_fused_def two_strings_def string_like_def reserve_def prims)
  show ?thesis
    using valid run changed run2 changed2
      failed_growth_leaks_buffer [OF valid(1) run changed]
      failed_growth_leaks_buffer [OF valid(2) run2 changed2]
    by simp
qed

end
